theory Spec2Isabelle
  imports Complex_Main "HOL-Library.Sublist" "HOL-Library.Char_ord" "HOL-Library.List_Lexorder"
    "HOL-Library.Log_Nat"
begin

chapter \<open>The recommendation core of the learning platform\<close>

text \<open>
  A shallow embedding of the recommendation functions of the repository:
  \<^item> \<^verbatim>\<open>app.py\<close>: \<^verbatim>\<open>extract_youtube_id\<close>, \<^verbatim>\<open>generate_recommendations\<close>;
  \<^item> \<^verbatim>\<open>modules/recommendation_methods.py\<close>: \<^verbatim>\<open>vectorize_user_profile\<close>,
    \<^verbatim>\<open>KNN_similarity\<close> and the second copy of \<^verbatim>\<open>generate_recommendations\<close>;
  \<^item> \<^verbatim>\<open>modules/evaluation.py\<close>: \<^verbatim>\<open>create_ratings_df\<close>, \<^verbatim>\<open>evaluate_surprise_models\<close>,
    \<^verbatim>\<open>train_knn_model\<close>, \<^verbatim>\<open>train_svd_model\<close>;
  \<^item> \<^verbatim>\<open>modules/recommender.py\<close>: \<^verbatim>\<open>get_knn_recommendations\<close>,
    \<^verbatim>\<open>get_svd_recommendations\<close>.

  The Python is dynamically typed. The model is typed as follows. Where the source tests
  the type or the presence of a value (\<^verbatim>\<open>isinstance\<close>, \<^verbatim>\<open>is None\<close>, \<^verbatim>\<open>if not x\<close>,
  \<^verbatim>\<open>dict.get\<close> with a default) the model has a sum or an option type and the test is a
  case distinction. Where the source uses a value without a test, the value has the type
  that use needs: the text fields of a content item are strings, its rating is a number,
  the tag lists of a profile are lists. An exception is a value \<open>Inl e\<close> of a sum type.
  A function of a library that is not part of the repository is a parameter of the
  model, apart from the regular expression matcher and the input validation of the
  nearest-neighbour index, which are written out below.
\<close>

section \<open>Python values\<close>

text \<open>
  The exceptions of the modelled code paths. \<open>LibraryError\<close> is any exception raised
  inside a library call that the model takes as a parameter. Every error carries a text,
  which stands for what \<^verbatim>\<open>str(e)\<close> prints; for the errors the interpreter raises the
  text is short: the name that is not defined, the attribute that is missing, the
  operation that is not supported.
\<close>

datatype error =
    NameError string
  | TypeError string
  | ValueError string
  | AttributeError string
  | IndexError string
  | KeyError string
  | ZeroDivisionError string
  | LibraryError string

fun message :: "error \<Rightarrow> string" where
  "message (NameError m) = m"
| "message (TypeError m) = m"
| "message (ValueError m) = m"
| "message (AttributeError m) = m"
| "message (IndexError m) = m"
| "message (KeyError m) = m"
| "message (ZeroDivisionError m) = m"
| "message (LibraryError m) = m"

text \<open>
  A scalar of the JSON documents of the database: an element of a tag list, an
  identifier. The code only tests the type of such a value and converts it with
  \<^verbatim>\<open>str()\<close>, so a float is given by the text \<^verbatim>\<open>str()\<close> prints for it.
\<close>

datatype scalar =
    SNone
  | SBool bool
  | SInt int
  | SFloat string
  | SStr string

text \<open>Decimal digits of a natural number, and \<^verbatim>\<open>str()\<close> on integers and scalars.\<close>

fun digits :: "nat \<Rightarrow> string" where
  "digits n =
     (if n < 10 then [char_of (48 + n)]
      else digits (n div 10) @ [char_of (48 + n mod 10)])"

declare digits.simps [simp del]

definition str_int :: "int \<Rightarrow> string" where
  "str_int i = (if i < 0 then CHR ''-'' # digits (nat (- i)) else digits (nat i))"

fun py_str :: "scalar \<Rightarrow> string" where
  "py_str SNone = ''None''"
| "py_str (SBool b) = (if b then ''True'' else ''False'')"
| "py_str (SInt i) = str_int i"
| "py_str (SFloat t) = t"
| "py_str (SStr s) = s"

text \<open>\<^verbatim>\<open>isinstance(x, str)\<close>, \<^verbatim>\<open>isinstance(x, (int, str))\<close> and
  \<^verbatim>\<open>isinstance(x, (str, int, float))\<close>. In Python \<^verbatim>\<open>bool\<close> is a subclass of
  \<^verbatim>\<open>int\<close>.\<close>

fun is_str :: "scalar \<Rightarrow> bool" where
  "is_str (SStr s) = True"
| "is_str x = False"

fun is_int_or_str :: "scalar \<Rightarrow> bool" where
  "is_int_or_str (SStr s) = True"
| "is_int_or_str (SInt i) = True"
| "is_int_or_str (SBool b) = True"
| "is_int_or_str x = False"

fun is_str_int_float :: "scalar \<Rightarrow> bool" where
  "is_str_int_float SNone = False"
| "is_str_int_float x = True"

text \<open>The substring test \<^verbatim>\<open>k in s\<close> on strings.\<close>

fun contains :: "string \<Rightarrow> string \<Rightarrow> bool" where
  "contains k [] = (k = [])"
| "contains k (c # cs) = (prefix k (c # cs) \<or> contains k cs)"

text \<open>
  \<^verbatim>\<open>sorted(xs, key=f, reverse=True)\<close> with numeric keys. The built-in sort is stable;
  with \<^verbatim>\<open>reverse=True\<close> it reverses the list, sorts it in ascending order and reverses
  the result, so that elements with equal keys keep their original order.
\<close>

definition sorted_reverse :: "('a \<Rightarrow> rat) \<Rightarrow> 'a list \<Rightarrow> 'a list" where
  "sorted_reverse f xs = rev (sort_key f (rev xs))"

section \<open>Double-precision arithmetic\<close>

text \<open>
  A Python float is an IEEE double. A double is given by its value, a rational number,
  and an operation of the code on doubles is the exact operation followed by
  \<open>round_double\<close>, the rounding to the nearest double with ties to the even
  significand: \<open>exponent x\<close> is the power of two at or below the magnitude of \<open>x\<close>, a
  double has 53 significant bits, and below \<open>2 ^ -1022\<close> the doubles are spaced by
  \<open>2 ^ -1074\<close>. The conversion of an integer to a double, the true division of two
  integers, and the arithmetic on doubles all round this way. Overflow to infinity is not
  modelled: the doubles of the modelled code come from 64-bit counts and from lengths of
  lists and stay far below \<open>2 ^ 1024\<close>.
\<close>

definition pow2 :: "int \<Rightarrow> rat" where
  "pow2 k = (if 0 \<le> k then 2 ^ nat k else 1 / 2 ^ nat (- k))"

definition exponent :: "rat \<Rightarrow> int" where
  "exponent x =
     (let (p, q) = quotient_of \<bar>x\<bar>;
          k = bitlen p - bitlen q
      in if pow2 k \<le> \<bar>x\<bar> then k else k - 1)"

definition round_half_even :: "rat \<Rightarrow> int" where
  "round_half_even x =
     (let f = \<lfloor>x\<rfloor>; d = x - of_int f
      in if d < 1 / 2 then f else if 1 / 2 < d then f + 1 else if even f then f else f + 1)"

definition round_double :: "rat \<Rightarrow> rat" where
  "round_double x =
     (if x = 0 then 0
      else let e = max (exponent x) (- 1022); ulp = pow2 (e - 52)
           in of_int (round_half_even (x / ulp)) * ulp)"

section \<open>app.py: the video identifier of a link\<close>

text \<open>
  \<^verbatim>\<open>re.match\<close> for the operators the pattern of \<^verbatim>\<open>extract_youtube_id\<close> uses: a
  backtracking matcher, anchored at the start of the input, which lists the ways to match
  in the order the library tries them (an alternative's left branch first, an optional
  part present first, a repetition longest first). A state is the input that is left and
  the groups captured so far.
\<close>

datatype cclass = Dot | NoneOf "char list"

datatype rx =
    Lit string
  | Plus cclass
  | Times nat cclass
  | Seq rx rx
  | Alt rx rx
  | Opt rx
  | Group nat rx

type_synonym mstate = "string \<times> (nat \<Rightarrow> string option)"

fun in_class :: "cclass \<Rightarrow> char \<Rightarrow> bool" where
  "in_class Dot c = (c \<noteq> CHR 0x0A)"
| "in_class (NoneOf cs) c = (c \<notin> set cs)"

fun rx_match :: "rx \<Rightarrow> mstate \<Rightarrow> mstate list" where
  "rx_match (Lit s) (inp, g) =
     (if take (length s) inp = s then [(drop (length s) inp, g)] else [])"
| "rx_match (Plus c) (inp, g) =
     map (\<lambda>k. (drop k inp, g)) (rev [1 ..< Suc (length (takeWhile (in_class c) inp))])"
| "rx_match (Times n c) (inp, g) =
     (if n \<le> length inp \<and> list_all (in_class c) (take n inp) then [(drop n inp, g)] else [])"
| "rx_match (Seq a b) st = concat (map (rx_match b) (rx_match a st))"
| "rx_match (Alt a b) st = rx_match a st @ rx_match b st"
| "rx_match (Opt a) st = rx_match a st @ [st]"
| "rx_match (Group i a) (inp, g) =
     map (\<lambda>(rest, g'). (rest, g'(i \<mapsto> take (length inp - length rest) inp)))
       (rx_match a (inp, g))"

definition re_match :: "rx \<Rightarrow> string \<Rightarrow> (nat \<Rightarrow> string option) option" where
  "re_match r s = (case rx_match r (s, Map.empty) of [] \<Rightarrow> None | (rest, g) # _ \<Rightarrow> Some g)"

text \<open>
  The pattern of the source, group by group:
  \<^verbatim>\<open>(https?://)?(www\.)?(youtube|youtu|youtube-nocookie)\.(com|be)/\<close>
  \<^verbatim>\<open>(watch\?v=|embed/|v/|.+\?v=)?([^&=%\?]{11})\<close>
\<close>

definition youtube_regex :: rx where
  "youtube_regex =
     Seq (Opt (Group 1 (Seq (Lit ''http'') (Seq (Opt (Lit ''s'')) (Lit ''://'')))))
    (Seq (Opt (Group 2 (Lit ''www.'')))
    (Seq (Group 3 (Alt (Lit ''youtube'') (Alt (Lit ''youtu'') (Lit ''youtube-nocookie''))))
    (Seq (Lit ''.'')
    (Seq (Group 4 (Alt (Lit ''com'') (Lit ''be'')))
    (Seq (Lit ''/'')
    (Seq (Opt (Group 5 (Alt (Lit ''watch?v='') (Alt (Lit ''embed/'') (Alt (Lit ''v/'')
            (Seq (Plus Dot) (Lit ''?v='')))))))
         (Group 6 (Times 11 (NoneOf ''&=%?'')))))))))"

text \<open>
  \<^verbatim>\<open>extract_youtube_id(url)\<close>. The argument is \<^verbatim>\<open>content_item.get("Link")\<close>: \<open>None\<close>
  when the item has no link. \<^verbatim>\<open>if not url\<close> holds for \<open>None\<close> and for the empty string.
\<close>

definition extract_youtube_id :: "string option \<Rightarrow> string option" where
  "extract_youtube_id url =
     (case url of
        None \<Rightarrow> None
      | Some u \<Rightarrow>
          if u = [] then None
          else (case re_match youtube_regex u of
                  Some g \<Rightarrow> g 6
                | None \<Rightarrow> None))"

section \<open>app.py: content recommendations\<close>

text \<open>
  A user document of the database, with the keys the recommenders read: \<^verbatim>\<open>name\<close>,
  \<^verbatim>\<open>bio\<close>, \<^verbatim>\<open>photo_url\<close>, the skills (\<open>Competences\<close>), the interests
  (\<open>Centres_d_Interet\<close>), the communities (\<open>Communautes\<close>) and
  \<^verbatim>\<open>Derniers_Cours_Interagis\<close>; the French keys are written without their accents and
  apostrophe. A text field that is missing is \<open>None\<close>; a list that is missing is
  \<open>[]\<close>, the default every \<^verbatim>\<open>get\<close> of the source gives it.
\<close>

record profile =
  name :: "string option"
  bio :: "string option"
  photo_url :: "string option"
  Competences :: "scalar list"
  Centres_d_Interet :: "scalar list"
  Communautes :: "scalar list"
  Derniers_Cours_Interagis :: "scalar list"

text \<open>
  A content document, with the keys \<^verbatim>\<open>generate_recommendations\<close> reads: \<^verbatim>\<open>id\<close>,
  \<^verbatim>\<open>Title\<close>, \<^verbatim>\<open>Category\<close>, \<^verbatim>\<open>Description\<close>, \<^verbatim>\<open>Link\<close>, \<^verbatim>\<open>Rating\<close>; \<open>None\<close> is a
  missing key. The raw catalog is what the database returns for the \<^verbatim>\<open>contents\<close>
  node: nothing, a dict from keys to entries, a list of entries, or a value of another
  type; an entry is a dict (a content document) or something else (a hole of a sparse
  list, a scalar).
\<close>

record content =
  c_id :: "scalar option"
  c_Title :: "string option"
  c_Category :: "string option"
  c_Description :: "string option"
  c_Link :: "string option"
  c_Rating :: "rat option"

datatype entry = Item content | NotDict

datatype catalog = CNone | CDict "(string \<times> entry) list" | CList "entry list" | COther

text \<open>A recommendation record, the dict literal the loop appends.\<close>

record recommendation =
  rec_id :: string
  Title :: string
  Category :: string
  Description :: string
  Link :: string
  EmbedLink :: "string option"
  Rating :: rat

text \<open>\<^verbatim>\<open>d.get(key, default)\<close> on a field.\<close>

definition get_or :: "'a option \<Rightarrow> 'a \<Rightarrow> 'a" where
  "get_or v d = (case v of None \<Rightarrow> d | Some x \<Rightarrow> x)"

text \<open>
  \<^verbatim>\<open>{"id": cid, **c_data}\<close>: the entries of \<^verbatim>\<open>c_data\<close> are written after the entry
  \<^verbatim>\<open>"id": cid\<close>, so an \<^verbatim>\<open>id\<close> that the document itself stores replaces \<^verbatim>\<open>cid\<close>.
\<close>

definition with_id :: "scalar \<Rightarrow> content \<Rightarrow> content" where
  "with_id cid c_data = c_data\<lparr>c_id := Some (get_or (c_id c_data) cid)\<rparr>"

text \<open>The two comprehensions that build \<^verbatim>\<open>all_contents_list\<close>; entries that are not
  dicts are left out, a list entry keeps the index it has in the raw list.\<close>

definition contents_of_dict :: "(string \<times> entry) list \<Rightarrow> content list" where
  "contents_of_dict items =
     concat (map (\<lambda>(cid, e). case e of Item c_data \<Rightarrow> [with_id (SStr cid) c_data] | NotDict \<Rightarrow> [])
       items)"

definition contents_of_list :: "entry list \<Rightarrow> content list" where
  "contents_of_list raw =
     concat (map (\<lambda>(index, e). case e of Item item \<Rightarrow> [with_id (SInt (int index)) item] | NotDict \<Rightarrow> [])
       (enumerate 0 raw))"

definition all_contents_list :: "catalog \<Rightarrow> content list option" where
  "all_contents_list raw =
     (case raw of
        CDict items \<Rightarrow> Some (contents_of_dict items)
      | CList xs \<Rightarrow> Some (contents_of_list xs)
      | _ \<Rightarrow> None)"

text \<open>The keyword and identifier lists of a profile. \<open>lower\<close> is \<^verbatim>\<open>str.lower\<close>, a
  parameter of the model.\<close>

definition user_skills :: "(string \<Rightarrow> string) \<Rightarrow> profile \<Rightarrow> string list" where
  "user_skills lower p = map (\<lambda>skill. lower (py_str skill)) (filter is_str (Competences p))"

definition user_interests :: "(string \<Rightarrow> string) \<Rightarrow> profile \<Rightarrow> string list" where
  "user_interests lower p =
     map (\<lambda>interest. lower (py_str interest)) (filter is_str (Centres_d_Interet p))"

definition interacted_course_ids :: "profile \<Rightarrow> string list" where
  "interacted_course_ids p = map py_str (filter is_int_or_str (Derniers_Cours_Interagis p))"

text \<open>The test \<^verbatim>\<open>any(keyword in content_category or keyword in content_description or
  keyword in content_title for keyword in keywords)\<close>.\<close>

definition matches :: "(string \<Rightarrow> string) \<Rightarrow> string list \<Rightarrow> content \<Rightarrow> bool" where
  "matches lower keywords content_item =
     (let content_category = lower (get_or (c_Category content_item) '''');
          content_description = lower (get_or (c_Description content_item) '''');
          content_title = lower (get_or (c_Title content_item) '''')
      in list_ex (\<lambda>keyword. contains keyword content_category
                          \<or> contains keyword content_description
                          \<or> contains keyword content_title) keywords)"

definition content_id_of :: "content \<Rightarrow> string" where
  "content_id_of content_item = py_str (get_or (c_id content_item) SNone)"

definition recommendation_of :: "string \<Rightarrow> content \<Rightarrow> recommendation" where
  "recommendation_of content_id content_item =
     (let youtube_id = extract_youtube_id (c_Link content_item);
          embed_link = (case youtube_id of
                          None \<Rightarrow> None
                        | Some y \<Rightarrow> if y = [] then None
                                    else Some (''https://www.youtube.com/embed/'' @ y))
      in \<lparr>rec_id = content_id,
          Title = get_or (c_Title content_item) ''Unknown Title'',
          Category = get_or (c_Category content_item) ''Unknown Category'',
          Description = get_or (c_Description content_item) ''No description available'',
          Link = get_or (c_Link content_item) ''#'',
          EmbedLink = embed_link,
          Rating = get_or (c_Rating content_item) 0\<rparr>)"

text \<open>The loop over \<^verbatim>\<open>all_contents_list\<close>: the list \<^verbatim>\<open>recommendations\<close> in the order
  the records are appended.\<close>

fun collect :: "(string \<Rightarrow> string) \<Rightarrow> string list \<Rightarrow> string list \<Rightarrow> content list
    \<Rightarrow> recommendation list" where
  "collect lower keywords interacted [] = []"
| "collect lower keywords interacted (content_item # rest) =
     (let content_id = content_id_of content_item
      in if content_id \<in> set interacted then collect lower keywords interacted rest
         else if matches lower keywords content_item
           then recommendation_of content_id content_item # collect lower keywords interacted rest
           else collect lower keywords interacted rest)"

text \<open>\<^verbatim>\<open>generate_recommendations(user_profile, all_contents_raw)\<close> of \<^verbatim>\<open>app.py\<close>. The
  callers pass \<^verbatim>\<open>get() or {}\<close> for the profile: \<open>None\<close> is the empty dict of a user
  without a stored document, for which \<^verbatim>\<open>not user_profile\<close> holds.\<close>

definition generate_recommendations ::
    "(string \<Rightarrow> string) \<Rightarrow> profile option \<Rightarrow> catalog \<Rightarrow> recommendation list" where
  "generate_recommendations lower user_profile all_contents_raw =
     (case user_profile of
        None \<Rightarrow> []
      | Some p \<Rightarrow>
          if all_contents_raw = CNone then []
          else (case all_contents_list all_contents_raw of
                  None \<Rightarrow> []
                | Some contents \<Rightarrow>
                    let keywords = user_skills lower p @ user_interests lower p;
                        recommendations = collect lower keywords (interacted_course_ids p) contents;
                        sorted_recommendations = sorted_reverse Rating recommendations
                    in take 10 sorted_recommendations))"

section \<open>modules/recommendation\_methods.py: the second copy\<close>

text \<open>
  The copy of \<^verbatim>\<open>generate_recommendations\<close> in the module differs from the one of
  \<^verbatim>\<open>app.py\<close> in two places. The comprehension for \<^verbatim>\<open>user_interests\<close> tests
  \<^verbatim>\<open>isinstance(item, (str, int, float))\<close>, and no variable \<^verbatim>\<open>item\<close> is in scope, so
  the test raises NameError for the first element of the list. The module neither defines
  nor imports \<^verbatim>\<open>extract_youtube_id\<close>, so the call for the first matching item raises
  NameError.
\<close>

definition rm_user_interests :: "(string \<Rightarrow> string) \<Rightarrow> profile \<Rightarrow> error + string list" where
  "rm_user_interests lower p =
     (if Centres_d_Interet p = [] then Inr []
      else Inl (NameError ''item''))"

fun rm_collect :: "(string \<Rightarrow> string) \<Rightarrow> string list \<Rightarrow> string list \<Rightarrow> content list
    \<Rightarrow> error + recommendation list" where
  "rm_collect lower keywords interacted [] = Inr []"
| "rm_collect lower keywords interacted (content_item # rest) =
     (let content_id = content_id_of content_item
      in if content_id \<in> set interacted then rm_collect lower keywords interacted rest
         else if matches lower keywords content_item
           then Inl (NameError ''extract_youtube_id'')
           else rm_collect lower keywords interacted rest)"

definition rm_generate_recommendations ::
    "(string \<Rightarrow> string) \<Rightarrow> profile option \<Rightarrow> catalog \<Rightarrow> error + recommendation list" where
  "rm_generate_recommendations lower user_profile all_contents_raw =
     (case user_profile of
        None \<Rightarrow> Inr []
      | Some p \<Rightarrow>
          if all_contents_raw = CNone then Inr []
          else (case all_contents_list all_contents_raw of
                  None \<Rightarrow> Inr []
                | Some contents \<Rightarrow>
                    (case rm_user_interests lower p of
                       Inl e \<Rightarrow> Inl e
                     | Inr interests \<Rightarrow>
                         (case rm_collect lower (user_skills lower p @ interests)
                                 (interacted_course_ids p) contents of
                            Inl e \<Rightarrow> Inl e
                          | Inr recommendations \<Rightarrow>
                              Inr (take 10 (sorted_reverse Rating recommendations))))))"

section \<open>modules/recommendation\_methods.py: similar users\<close>

text \<open>The comprehension \<^verbatim>\<open>[str(item).lower() for item in ... if isinstance(item, (str,
  int, float))]\<close> over the three tag lists of a user, in the order of the source.\<close>

definition profile_terms :: "(string \<Rightarrow> string) \<Rightarrow> profile \<Rightarrow> string list" where
  "profile_terms lower user_profile =
     map (\<lambda>item. lower (py_str item)) (filter is_str_int_float (Competences user_profile))
     @ map (\<lambda>item. lower (py_str item)) (filter is_str_int_float (Centres_d_Interet user_profile))
     @ map (\<lambda>item. lower (py_str item)) (filter is_str_int_float (Communautes user_profile))"

text \<open>\<^verbatim>\<open>list.index\<close>: the first position of a value, \<open>None\<close> where Python raises
  ValueError.\<close>

fun index_of :: "'a \<Rightarrow> 'a list \<Rightarrow> nat option" where
  "index_of x [] = None"
| "index_of x (y # ys) =
     (if x = y then Some 0 else map_option Suc (index_of x ys))"

text \<open>\<^verbatim>\<open>vectorize_user_profile\<close>: a vector of zeros, with a one written at the index
  of every term of the profile that the vocabulary holds; the ValueError of a term that
  it does not hold is passed over.\<close>

definition vectorize_user_profile ::
    "(string \<Rightarrow> string) \<Rightarrow> profile \<Rightarrow> string list \<Rightarrow> rat list" where
  "vectorize_user_profile lower user_profile all_possible_terms =
     fold (\<lambda>term vector.
             case index_of term all_possible_terms of
               Some index \<Rightarrow> vector[index := 1]
             | None \<Rightarrow> vector)
          (profile_terms lower user_profile)
          (replicate (length all_possible_terms) 0)"

text \<open>
  Arrays as the numeric library builds them from nested lists, with the number of
  dimensions of an array: \<open>array1\<close> is the array of a vector, \<open>reshape_1_row\<close> is
  \<^verbatim>\<open>a.reshape(1, -1)\<close> on an array of one dimension (the same numbers as one row of an
  array of two dimensions), and a Python list \<^verbatim>\<open>[a]\<close> around an array is \<open>Nested [a]\<close>.
\<close>

datatype nested = Scalar rat | Nested "nested list"

fun ndim :: "nested \<Rightarrow> nat" where
  "ndim (Scalar x) = 0"
| "ndim (Nested []) = 1"
| "ndim (Nested (a # as)) = Suc (ndim a)"

fun scalars :: "nested \<Rightarrow> rat list" where
  "scalars (Scalar x) = [x]"
| "scalars (Nested as) = concat (map scalars as)"

fun rows :: "nested \<Rightarrow> rat list list" where
  "rows (Scalar x) = []"
| "rows (Nested as) = map scalars as"

definition array1 :: "rat list \<Rightarrow> nested" where
  "array1 v = Nested (map Scalar v)"

definition reshape_1_row :: "nested \<Rightarrow> nested" where
  "reshape_1_row a = Nested [a]"

text \<open>
  The nearest-neighbour index of the library. \<^verbatim>\<open>kneighbors\<close> validates its query
  before it searches: the query has to be an array of two dimensions, one row per query
  point, and an array of another number of dimensions is refused with ValueError. The
  search among the fitted rows is the parameter \<open>search\<close>, which returns, for every
  query row, the indices of the \<open>n_neighbors\<close> nearest fitted rows.
\<close>

type_synonym neighbor_search = "rat list list \<Rightarrow> nat \<Rightarrow> rat list list \<Rightarrow> nat list list"

definition kneighbors ::
    "neighbor_search \<Rightarrow> rat list list \<Rightarrow> nat \<Rightarrow> nested \<Rightarrow> error + nat list list" where
  "kneighbors search fitted n_neighbors X =
     (if ndim X = 2 then Inr (search fitted n_neighbors (rows X))
      else if ndim X < 2 then Inl (ValueError ''Expected 2D array'')
      else Inl (ValueError ''Found array with dim 3 or more. NearestNeighbors expected <= 2.''))"

text \<open>The record of a recommended user.\<close>

record peer =
  ID_Etudiant :: string
  Nom :: string
  Bio :: string
  Skills :: "scalar list"
  Interests :: "scalar list"
  Communities :: "scalar list"
  Photo_URL :: string

definition peer_of :: "string \<Rightarrow> profile \<Rightarrow> peer" where
  "peer_of uid user_detail =
     \<lparr>ID_Etudiant = uid,
      Nom = get_or (name user_detail) (''User '' @ uid),
      Bio = get_or (bio user_detail) ''No bio available.'',
      Skills = Competences user_detail,
      Interests = Centres_d_Interet user_detail,
      Communities = Communautes user_detail,
      Photo_URL = get_or (photo_url user_detail) ''/static/default-avatar.png''\<rparr>"

text \<open>\<^verbatim>\<open>[other_user_ids[i] for i in recommended_user_indices]\<close>; an index out of range
  raises IndexError.\<close>

fun ids_at :: "string list \<Rightarrow> nat list \<Rightarrow> error + string list" where
  "ids_at other_user_ids [] = Inr []"
| "ids_at other_user_ids (i # rest) =
     (if i < length other_user_ids
      then (case ids_at other_user_ids rest of
              Inl e \<Rightarrow> Inl e
            | Inr uids \<Rightarrow> Inr (other_user_ids ! i # uids))
      else Inl (IndexError ''list index out of range''))"

text \<open>The body of the \<^verbatim>\<open>try\<close> block of \<^verbatim>\<open>KNN_similarity\<close>, with the query
  \<^verbatim>\<open>[current_user_vector.reshape(1, -1)]\<close>.\<close>

definition knn_try ::
    "neighbor_search \<Rightarrow> (string \<times> profile) list \<Rightarrow> string list \<Rightarrow> rat list list \<Rightarrow> rat list
     \<Rightarrow> nat \<Rightarrow> error + peer list" where
  "knn_try search all_users_data other_user_ids other_user_vectors current_user_vector k_neighbors =
     (case kneighbors search other_user_vectors k_neighbors
             (Nested [reshape_1_row (array1 current_user_vector)]) of
        Inl e \<Rightarrow> Inl e
      | Inr indices \<Rightarrow>
          if concat indices = [] then Inr []
          else (case ids_at other_user_ids (hd indices) of
                  Inl e \<Rightarrow> Inl e
                | Inr recommended_user_ids \<Rightarrow>
                    Inr (concat (map (\<lambda>uid. case map_of all_users_data uid of
                                              None \<Rightarrow> []
                                            | Some user_detail \<Rightarrow> [peer_of uid user_detail])
                                     recommended_user_ids))))"

text \<open>
  \<^verbatim>\<open>KNN_similarity(current_user_id, num_recommendations)\<close>. \<open>all_users_data\<close> is what
  \<^verbatim>\<open>get_all_users_for_recommendation()\<close> fetched: the dict of the user documents, in its
  iteration order. A stored document is a dict with entries, so \<^verbatim>\<open>not
  current_user_profile\<close> holds when the key is missing, and \<^verbatim>\<open>if user_detail\<close> when it
  is there. Every user has a vector in \<^verbatim>\<open>user_vectors\<close>, so the test
  \<^verbatim>\<open>current_user_vector is None\<close> never holds once the profile was found, and the
  vector of a user is written where the source looks it up. The \<^verbatim>\<open>except\<close> clause turns
  every exception of the \<^verbatim>\<open>try\<close> block into the empty list.
\<close>

definition KNN_similarity ::
    "(string \<Rightarrow> string) \<Rightarrow> neighbor_search \<Rightarrow> (string \<times> profile) list \<Rightarrow> string \<Rightarrow> int
     \<Rightarrow> peer list" where
  "KNN_similarity lower search all_users_data current_user_id num_recommendations =
     (if all_users_data = [] then []
      else
        let other_users_data = filter (\<lambda>(uid, data). uid \<noteq> current_user_id) all_users_data
        in if other_users_data = [] then []
        else (case map_of all_users_data current_user_id of
                None \<Rightarrow> []
              | Some current_user_profile \<Rightarrow>
                  let all_possible_terms =
                        sorted_list_of_set
                          (set (concat (map (\<lambda>(uid, user_data). profile_terms lower user_data)
                                            all_users_data)))
                  in if all_possible_terms = [] then []
                  else
                    let current_user_vector =
                          vectorize_user_profile lower current_user_profile all_possible_terms;
                        other_user_ids = map fst other_users_data;
                        other_user_vectors =
                          map (\<lambda>(uid, user_data).
                                 vectorize_user_profile lower user_data all_possible_terms)
                              other_users_data;
                        k_neighbors =
                          (if int (length other_user_vectors) < num_recommendations
                           then int (length other_user_vectors) else num_recommendations)
                    in if k_neighbors < 1 \<or> length other_user_vectors = 0 then []
                    else (case knn_try search all_users_data other_user_ids other_user_vectors
                                 current_user_vector (nat k_neighbors) of
                            Inl e \<Rightarrow> []
                          | Inr recommended_users_details \<Rightarrow> recommended_users_details)))"

section \<open>modules/evaluation.py: the ratings table and the evaluation\<close>

text \<open>
  The student table that \<^verbatim>\<open>pd.read_csv\<close> returns, with the columns
  \<^verbatim>\<open>create_ratings_df\<close> reads. A cell of the skills column is a string, or NaN (a
  float) when the cell is empty. \<^verbatim>\<open>ast.literal_eval\<close> is the parameter
  \<open>literal_eval\<close>; what it returns is a value with a length, given by the elements an
  iteration over it yields (a list, and also a tuple, a string, a set, a dict), or a
  value without a length (a number, \<^verbatim>\<open>None\<close>); the elements have any type \<open>'a\<close>.
\<close>

datatype cell = Str string | NaN

datatype 'a literal = Sized "'a list" | Unsized

record csv_row =
  row_ID_Etudiant :: int
  row_Nombre_Interactions :: int
  row_Competences :: cell

text \<open>What a function printed, and what a call yields: the printed lines, and the
  exception it raised or the value it returned.\<close>

datatype printed =
    Error_parsing_column error
  | Error_in_evaluate error
  | KNN_Error error
  | SVD_Error error

type_synonym 'r outcome = "printed list \<times> (error + 'r)"

text \<open>\<^verbatim>\<open>pd.DataFrame()\<close> has no columns and no rows; \<^verbatim>\<open>pd.DataFrame(ratings,
  columns=["user", "item", "rating"])\<close> has the three columns and a row per tuple.\<close>

datatype 'a frame = NoFrame | Frame "(string \<times> 'a \<times> rat) list"

fun empty :: "'a frame \<Rightarrow> bool" where
  "empty NoFrame = True"
| "empty (Frame ratings) = (ratings = [])"

text \<open>\<^verbatim>\<open>apply(lambda x: ast.literal_eval(x) if isinstance(x, str) else x)\<close> on the
  skills column: the cells in order, up to the first one whose text does not parse.\<close>

fun apply_literal_eval ::
    "(string \<Rightarrow> error + 'a literal) \<Rightarrow> cell list \<Rightarrow> error + 'a literal list" where
  "apply_literal_eval literal_eval [] = Inr []"
| "apply_literal_eval literal_eval (x # xs) =
     (case (case x of Str s \<Rightarrow> literal_eval s | NaN \<Rightarrow> Inr Unsized) of
        Inl e \<Rightarrow> Inl e
      | Inr v \<Rightarrow>
          (case apply_literal_eval literal_eval xs of
             Inl e \<Rightarrow> Inl e
           | Inr vs \<Rightarrow> Inr (v # vs)))"

text \<open>
  The score of a row, \<^verbatim>\<open>min((num_interactions / 100.0) * 5, 5) * (1 +
  len(competences)/10)\<close>, in the doubles the code computes with: the count is converted
  to a double and divided by 100.0, the quotient is multiplied by 5.0, \<^verbatim>\<open>min\<close> compares
  the product with the integer 5, the length is divided by 10 (a true division of
  integers) and added to 1.0, and the two factors are multiplied.
\<close>

definition normalized_score :: "int \<Rightarrow> nat \<Rightarrow> rat" where
  "normalized_score num_interactions len_competences =
     (let n = round_double (of_int num_interactions);
          scaled = round_double (round_double (n / 100) * 5);
          factor = round_double (1 + round_double (of_nat len_competences / 10))
      in round_double (min scaled 5 * factor))"

text \<open>The loop over the rows, with the list \<^verbatim>\<open>ratings\<close> it appends to. \<^verbatim>\<open>len()\<close>
  of a value without a length raises TypeError.\<close>

fun rating_loop ::
    "(csv_row \<times> 'a literal) list \<Rightarrow> (string \<times> 'a \<times> rat) list
     \<Rightarrow> error + (string \<times> 'a \<times> rat) list" where
  "rating_loop [] ratings = Inr ratings"
| "rating_loop ((row, v) # rest) ratings =
     (case v of
        Unsized \<Rightarrow> Inl (TypeError ''len'')
      | Sized competences \<Rightarrow>
          rating_loop rest
            (ratings @
             map (\<lambda>competence.
                    (str_int (row_ID_Etudiant row), competence,
                     normalized_score (row_Nombre_Interactions row) (length competences)))
                 competences))"

text \<open>\<^verbatim>\<open>create_ratings_df(csv_path)\<close>; \<open>read_csv\<close> is what \<^verbatim>\<open>pd.read_csv(csv_path)\<close>
  yields, the table or an exception.\<close>

definition create_ratings_df ::
    "(string \<Rightarrow> error + 'a literal) \<Rightarrow> error + csv_row list \<Rightarrow> 'a frame outcome" where
  "create_ratings_df literal_eval read_csv =
     (case read_csv of
        Inl e \<Rightarrow> ([], Inl e)
      | Inr df \<Rightarrow>
          (case apply_literal_eval literal_eval (map row_Competences df) of
             Inl e \<Rightarrow> ([Error_parsing_column e], Inr NoFrame)
           | Inr parsed \<Rightarrow>
               (case rating_loop (zip df parsed) [] of
                  Inl e \<Rightarrow> ([], Inl e)
                | Inr ratings \<Rightarrow> ([], Inr (Frame ratings)))))"

text \<open>
  The library of the collaborative-filtering models. \<open>load_from_df\<close> is
  \<^verbatim>\<open>Dataset.load_from_df\<close>, \<open>cross_validate\<close> is \<^verbatim>\<open>cross_validate\<close> with the algorithm,
  the data and the argument \<^verbatim>\<open>cv\<close> (the measures are RMSE and MAE in every call);
  floats have any type \<open>'f\<close>, and \<open>rounded_mean\<close> is \<^verbatim>\<open>round(float(sum(xs) / len(xs)), 2)\<close> on
  a list that is not empty.
\<close>

datatype algo = KNNBasic | KNNBasic_cosine_user_based | SVD

record 'f cv_results =
  test_rmse :: "'f list"
  test_mae :: "'f list"

record 'f metrics =
  RMSE :: 'f
  MAE :: 'f

datatype 'f report = Error_object string | Report "'f metrics" "'f metrics"

definition mean_rounded :: "('f list \<Rightarrow> 'f) \<Rightarrow> 'f list \<Rightarrow> error + 'f" where
  "mean_rounded rounded_mean xs =
     (if xs = [] then Inl (ZeroDivisionError ''division by zero'') else Inr (rounded_mean xs))"

definition metrics_of :: "('f list \<Rightarrow> 'f) \<Rightarrow> 'f cv_results \<Rightarrow> error + 'f metrics" where
  "metrics_of rounded_mean results =
     (case mean_rounded rounded_mean (test_rmse results) of
        Inl e \<Rightarrow> Inl e
      | Inr rmse \<Rightarrow>
          (case mean_rounded rounded_mean (test_mae results) of
             Inl e \<Rightarrow> Inl e
           | Inr mae \<Rightarrow> Inr \<lparr>RMSE = rmse, MAE = mae\<rparr>))"

text \<open>
  The library's \<^verbatim>\<open>cross_validate\<close> splits the ratings of the data into \<^verbatim>\<open>cv\<close> folds
  before it fits a model: a number of folds below 2 or above the number of ratings is
  refused with ValueError. The data that \<^verbatim>\<open>Dataset.load_from_df\<close> builds holds the rows
  of the table as its ratings, so here the data is the list of ratings and
  \<^verbatim>\<open>load_from_df\<close> is \<open>Inr\<close>. The fitting and scoring of the folds is the parameter
  \<open>run\<close>.
\<close>

definition surprise_cross_validate ::
    "(algo \<Rightarrow> 'r list \<Rightarrow> nat \<Rightarrow> error + 'f cv_results)
     \<Rightarrow> algo \<Rightarrow> 'r list \<Rightarrow> nat \<Rightarrow> error + 'f cv_results" where
  "surprise_cross_validate run model data cv =
     (if cv < 2 \<or> length data < cv then Inl (ValueError ''Incorrect value for n_splits'')
      else run model data cv)"

text \<open>The body of the \<^verbatim>\<open>try\<close> block of \<^verbatim>\<open>evaluate_surprise_models\<close>.\<close>

definition evaluate_try ::
    "(string \<Rightarrow> error + 'a literal) \<Rightarrow> error + csv_row list
     \<Rightarrow> ((string \<times> 'a \<times> rat) list \<Rightarrow> error + 'd)
     \<Rightarrow> (algo \<Rightarrow> 'd \<Rightarrow> nat \<Rightarrow> error + 'f cv_results)
     \<Rightarrow> ('f list \<Rightarrow> 'f) \<Rightarrow> 'f report outcome" where
  "evaluate_try literal_eval read_csv load_from_df cross_validate rounded_mean =
     (case create_ratings_df literal_eval read_csv of
        (out, Inl e) \<Rightarrow> (out, Inl e)
      | (out, Inr ratings_df) \<Rightarrow>
          if empty ratings_df
          then (out, Inr (Error_object ''No valid ratings data available''))
          else (out,
            case load_from_df (case ratings_df of Frame ratings \<Rightarrow> ratings | NoFrame \<Rightarrow> []) of
              Inl e \<Rightarrow> Inl e
            | Inr data \<Rightarrow>
                (case cross_validate KNNBasic data 5 of
                   Inl e \<Rightarrow> Inl e
                 | Inr knn_results \<Rightarrow>
                     (case cross_validate SVD data 5 of
                        Inl e \<Rightarrow> Inl e
                      | Inr svd_results \<Rightarrow>
                          (case metrics_of rounded_mean knn_results of
                             Inl e \<Rightarrow> Inl e
                           | Inr knn \<Rightarrow>
                               (case metrics_of rounded_mean svd_results of
                                  Inl e \<Rightarrow> Inl e
                                | Inr svd \<Rightarrow> Inr (Report knn svd)))))))"

text \<open>\<^verbatim>\<open>evaluate_surprise_models(csv_path)\<close>: the \<^verbatim>\<open>except\<close> clause prints the
  exception and returns the dict \<^verbatim>\<open>{"error": str(e)}\<close>.\<close>

definition evaluate_surprise_models ::
    "(string \<Rightarrow> error + 'a literal) \<Rightarrow> error + csv_row list
     \<Rightarrow> ((string \<times> 'a \<times> rat) list \<Rightarrow> error + 'd)
     \<Rightarrow> (algo \<Rightarrow> 'd \<Rightarrow> nat \<Rightarrow> error + 'f cv_results)
     \<Rightarrow> ('f list \<Rightarrow> 'f) \<Rightarrow> 'f report outcome" where
  "evaluate_surprise_models literal_eval read_csv load_from_df cross_validate rounded_mean =
     (case evaluate_try literal_eval read_csv load_from_df cross_validate rounded_mean of
        (out, Inl e) \<Rightarrow> (out @ [Error_in_evaluate e], Inr (Error_object (message e)))
      | (out, Inr results) \<Rightarrow> (out, Inr results))"

text \<open>
  \<^verbatim>\<open>train_knn_model()\<close> and \<^verbatim>\<open>train_svd_model()\<close>. Selecting the columns
  \<^verbatim>\<open>["user", "item", "rating"]\<close> of a table without columns raises KeyError. The
  parameter \<open>fit\<close> stands for the library calls \<^verbatim>\<open>Dataset.load_from_df\<close>,
  \<^verbatim>\<open>build_full_trainset\<close> and \<^verbatim>\<open>fit\<close>, in this order; its value is the pair of the
  trainset and the fitted model.
\<close>

definition train_with ::
    "algo \<Rightarrow> (string \<Rightarrow> error + 'a literal) \<Rightarrow> error + csv_row list
     \<Rightarrow> (algo \<Rightarrow> (string \<times> 'a \<times> rat) list \<Rightarrow> error + 'm) \<Rightarrow> 'm outcome" where
  "train_with model literal_eval read_csv fit =
     (case create_ratings_df literal_eval read_csv of
        (out, Inl e) \<Rightarrow> (out, Inl e)
      | (out, Inr NoFrame) \<Rightarrow> (out, Inl (KeyError ''user, item, rating''))
      | (out, Inr (Frame ratings)) \<Rightarrow> (out, fit model ratings))"

definition train_knn_model ::
    "(string \<Rightarrow> error + 'a literal) \<Rightarrow> error + csv_row list
     \<Rightarrow> (algo \<Rightarrow> (string \<times> 'a \<times> rat) list \<Rightarrow> error + 'm) \<Rightarrow> 'm outcome" where
  "train_knn_model = train_with KNNBasic_cosine_user_based"

definition train_svd_model ::
    "(string \<Rightarrow> error + 'a literal) \<Rightarrow> error + csv_row list
     \<Rightarrow> (algo \<Rightarrow> (string \<times> 'a \<times> rat) list \<Rightarrow> error + 'm) \<Rightarrow> 'm outcome" where
  "train_svd_model = train_with SVD"

section \<open>modules/recommender.py: collaborative-filtering recommendations\<close>

text \<open>
  A prediction of the library (user, item, estimate), and a row of the student table
  after \<^verbatim>\<open>preprocess_features\<close>, with the columns the two functions read. The
  parameter \<open>test\<close> stands for \<^verbatim>\<open>model.test(trainset.build_anti_testset())\<close>.
\<close>

record 'a prediction =
  uid :: string
  iid :: 'a
  est :: rat

record 'a student =
  s_ID_Etudiant :: int
  s_Nom :: string
  s_Nombre_Interactions :: int
  s_Competences :: "'a list"

record 'a knn_recommendation =
  knn_Nom :: string
  knn_Competence :: 'a
  knn_Score :: rat

record svd_recommendation =
  svd_Nom :: string
  svd_Score :: rat

text \<open>The slice \<^verbatim>\<open>xs[:n]\<close>; a negative \<open>n\<close> counts from the end.\<close>

definition slice_to :: "int \<Rightarrow> 'b list \<Rightarrow> 'b list" where
  "slice_to n xs = (if 0 \<le> n then take (nat n) xs else take (length xs - nat (- n)) xs)"

text \<open>\<^verbatim>\<open>sorted(user_skills, key=lambda x: x.est, reverse=True)\<close>: the elements are the
  items of the predictions (skills), which have no attribute \<^verbatim>\<open>est\<close>, so the key
  function raises AttributeError on the first element.\<close>

definition sorted_by_est_of_items :: "'a list \<Rightarrow> error + 'a list" where
  "sorted_by_est_of_items skills =
     (if skills = [] then Inr []
      else Inl (AttributeError ''est''))"

text \<open>The body of the \<^verbatim>\<open>try\<close> block of \<^verbatim>\<open>get_knn_recommendations\<close>. The score
  \<^verbatim>\<open>student["Nombre_Interactions"] / 100\<close> is a true division of two integers, the
  double nearest to the quotient.\<close>

definition knn_try_body ::
    "(string \<Rightarrow> error + 'a literal) \<Rightarrow> error + csv_row list
     \<Rightarrow> (algo \<Rightarrow> (string \<times> 'a \<times> rat) list \<Rightarrow> error + 'm)
     \<Rightarrow> ('m \<Rightarrow> error + 'a prediction list)
     \<Rightarrow> error + 'a student list
     \<Rightarrow> scalar \<Rightarrow> int \<Rightarrow> 'a knn_recommendation list outcome" where
  "knn_try_body literal_eval read_csv fit test load_students user_id top_n =
     (case train_knn_model literal_eval read_csv fit of
        (out, Inl e) \<Rightarrow> (out, Inl e)
      | (out, Inr model) \<Rightarrow> (out,
          case test model of
            Inl e \<Rightarrow> Inl e
          | Inr predictions \<Rightarrow>
              (case sorted_by_est_of_items
                      (map iid (filter (\<lambda>p. uid p = py_str user_id) predictions)) of
                 Inl e \<Rightarrow> Inl e
               | Inr sorted_skills \<Rightarrow>
                   (case load_students of
                      Inl e \<Rightarrow> Inl e
                    | Inr df \<Rightarrow>
                        let top_skills = slice_to top_n sorted_skills;
                            recommendations =
                              concat (map (\<lambda>skill.
                                map (\<lambda>student.
                                       \<lparr>knn_Nom = s_Nom student,
                                        knn_Competence = skill,
                                        knn_Score =
                                          round_double
                                            (of_int (s_Nombre_Interactions student) / 100)\<rparr>)
                                    (filter (\<lambda>student. skill \<in> set (s_Competences student)) df))
                                top_skills)
                        in Inr (slice_to top_n (sorted_reverse knn_Score recommendations))))))"

text \<open>\<^verbatim>\<open>get_knn_recommendations(user_id, top_n)\<close>: the whole body is the \<^verbatim>\<open>try\<close>
  block; the \<^verbatim>\<open>except\<close> clause prints the exception and returns the empty list.\<close>

definition get_knn_recommendations ::
    "(string \<Rightarrow> error + 'a literal) \<Rightarrow> error + csv_row list
     \<Rightarrow> (algo \<Rightarrow> (string \<times> 'a \<times> rat) list \<Rightarrow> error + 'm)
     \<Rightarrow> ('m \<Rightarrow> error + 'a prediction list)
     \<Rightarrow> error + 'a student list
     \<Rightarrow> scalar \<Rightarrow> int \<Rightarrow> 'a knn_recommendation list outcome" where
  "get_knn_recommendations literal_eval read_csv fit test load_students user_id top_n =
     (case knn_try_body literal_eval read_csv fit test load_students user_id top_n of
        (out, Inl e) \<Rightarrow> (out @ [KNN_Error e], Inr [])
      | (out, Inr recommendations) \<Rightarrow> (out, Inr recommendations))"

text \<open>The comprehension of \<^verbatim>\<open>get_svd_recommendations\<close>: \<^verbatim>\<open>int(p.iid)\<close> is the
  parameter \<open>int_of\<close>; \<^verbatim>\<open>.values[0]\<close> raises IndexError when no student has the
  identifier. \<open>df\<close> is the table the module loaded when it was imported.\<close>

fun svd_records ::
    "('a \<Rightarrow> error + int) \<Rightarrow> 'a student list \<Rightarrow> 'a prediction list
     \<Rightarrow> error + svd_recommendation list" where
  "svd_records int_of df [] = Inr []"
| "svd_records int_of df (p # ps) =
     (case int_of (iid p) of
        Inl e \<Rightarrow> Inl e
      | Inr n \<Rightarrow>
          (case filter (\<lambda>student. s_ID_Etudiant student = n) df of
             [] \<Rightarrow> Inl (IndexError ''index 0 is out of bounds for axis 0 with size 0'')
           | student # _ \<Rightarrow>
               (case svd_records int_of df ps of
                  Inl e \<Rightarrow> Inl e
                | Inr rs \<Rightarrow> Inr (\<lparr>svd_Nom = s_Nom student, svd_Score = est p\<rparr> # rs))))"

definition svd_try_body ::
    "(string \<Rightarrow> error + 'a literal) \<Rightarrow> error + csv_row list
     \<Rightarrow> (algo \<Rightarrow> (string \<times> 'a \<times> rat) list \<Rightarrow> error + 'm)
     \<Rightarrow> ('m \<Rightarrow> error + 'a prediction list)
     \<Rightarrow> ('a \<Rightarrow> error + int) \<Rightarrow> 'a student list
     \<Rightarrow> scalar \<Rightarrow> int \<Rightarrow> svd_recommendation list outcome" where
  "svd_try_body literal_eval read_csv fit test int_of df user_id top_n =
     (case train_svd_model literal_eval read_csv fit of
        (out, Inl e) \<Rightarrow> (out, Inl e)
      | (out, Inr model) \<Rightarrow> (out,
          case test model of
            Inl e \<Rightarrow> Inl e
          | Inr predictions \<Rightarrow>
              let user_preds =
                    sorted_reverse est (filter (\<lambda>p. uid p = py_str user_id) predictions)
              in svd_records int_of df (slice_to top_n user_preds)))"

definition get_svd_recommendations ::
    "(string \<Rightarrow> error + 'a literal) \<Rightarrow> error + csv_row list
     \<Rightarrow> (algo \<Rightarrow> (string \<times> 'a \<times> rat) list \<Rightarrow> error + 'm)
     \<Rightarrow> ('m \<Rightarrow> error + 'a prediction list)
     \<Rightarrow> ('a \<Rightarrow> error + int) \<Rightarrow> 'a student list
     \<Rightarrow> scalar \<Rightarrow> int \<Rightarrow> svd_recommendation list outcome" where
  "get_svd_recommendations literal_eval read_csv fit test int_of df user_id top_n =
     (case svd_try_body literal_eval read_csv fit test int_of df user_id top_n of
        (out, Inl e) \<Rightarrow> (out @ [SVD_Error e], Inr [])
      | (out, Inr recommendations) \<Rightarrow> (out, Inr recommendations))"

section \<open>Instances of the parameters for concrete inputs\<close>

text \<open>
  \<^verbatim>\<open>ast.literal_eval\<close> on three texts: the list literals \<^verbatim>\<open>['a', 'b']\<close> and
  \<^verbatim>\<open>['x']\<close>, and a text with an unclosed bracket, on which it raises a syntax error.
  The instance is used on these texts only.
\<close>

definition sample_literal_eval :: "string \<Rightarrow> error + string literal" where
  "sample_literal_eval s =
     (if s = ''['a', 'b']'' then Inr (Sized [''a'', ''b''])
      else if s = ''['a', 'b', 'c']'' then Inr (Sized [''a'', ''b'', ''c''])
      else if s = ''['x']'' then Inr (Sized [''x''])
      else Inl (LibraryError ''invalid syntax''))"

text \<open>An instance of \<^verbatim>\<open>str.lower\<close> for concrete inputs: on a string of ASCII
  characters \<^verbatim>\<open>str.lower\<close> changes the letters A to Z and nothing else.\<close>

definition ascii_lower :: "string \<Rightarrow> string" where
  "ascii_lower s =
     map (\<lambda>c. if CHR ''A'' \<le> c \<and> c \<le> CHR ''Z'' then char_of (of_char c + (32::nat)) else c) s"

text \<open>A search that answers every query row with the indices of the first
  \<open>n_neighbors\<close> fitted rows.\<close>

definition sample_search :: neighbor_search where
  "sample_search fitted n_neighbors queries = map (\<lambda>q. [0 ..< n_neighbors]) queries"

text \<open>Profiles and content documents for the concrete inputs: a profile with the given
  skills and interacted identifiers and nothing else, a content document with a title,
  a category and possibly a stored identifier and a rating.\<close>

definition tagged_profile :: "scalar list \<Rightarrow> scalar list \<Rightarrow> profile" where
  "tagged_profile skills interacted =
     \<lparr>name = None, bio = None, photo_url = None,
      Competences = skills, Centres_d_Interet = [], Communautes = [],
      Derniers_Cours_Interagis = interacted\<rparr>"

definition course :: "scalar option \<Rightarrow> string \<Rightarrow> string \<Rightarrow> rat option \<Rightarrow> content" where
  "course stored_id title category rating =
     \<lparr>c_id = stored_id, c_Title = Some title, c_Category = Some category,
      c_Description = None, c_Link = None, c_Rating = rating\<rparr>"

definition rust_entries :: "entry list" where
  "rust_entries =
     [Item (course None ''Intro to Rust'' ''Systems'' (Some 4)),
      Item (course None ''Cooking 101'' ''Food'' (Some 9)),
      NotDict,
      Item (course None ''Rust in practice'' ''Systems'' (Some 9)),
      Item (course None ''Trusted systems'' ''Security'' (Some 4)),
      Item (course None ''Rust macros'' ''Systems'' None)]"

definition two_users :: "(string \<times> profile) list" where
  "two_users = [(''u1'', tagged_profile [SStr ''Python''] []),
                (''u2'', tagged_profile [SStr ''python'', SInt 3] [])]"

definition newcomer_and_peer :: "(string \<times> profile) list" where
  "newcomer_and_peer = [(''u0'', tagged_profile [] []),
                        (''u2'', tagged_profile [SStr ''python''] [])]"

text \<open>Student tables of one, two and four rows, and one with a second row whose
  skills text has an unclosed bracket.\<close>

definition one_student :: "csv_row list" where
  "one_student =
     [\<lparr>row_ID_Etudiant = 7, row_Nombre_Interactions = 50, row_Competences = Str ''['a', 'b']''\<rparr>]"

definition two_students :: "csv_row list" where
  "two_students =
     [\<lparr>row_ID_Etudiant = 7, row_Nombre_Interactions = 50, row_Competences = Str ''['a', 'b']''\<rparr>,
      \<lparr>row_ID_Etudiant = 12, row_Nombre_Interactions = 100, row_Competences = Str ''['x']''\<rparr>]"

definition four_students :: "csv_row list" where
  "four_students =
     [\<lparr>row_ID_Etudiant = 7, row_Nombre_Interactions = 50, row_Competences = Str ''['a', 'b']''\<rparr>,
      \<lparr>row_ID_Etudiant = 8, row_Nombre_Interactions = 30,
       row_Competences = Str ''['a', 'b', 'c']''\<rparr>,
      \<lparr>row_ID_Etudiant = 9, row_Nombre_Interactions = 100, row_Competences = Str ''['x']''\<rparr>,
      \<lparr>row_ID_Etudiant = 12, row_Nombre_Interactions = 100, row_Competences = Str ''['x']''\<rparr>]"

definition malformed_students :: "csv_row list" where
  "malformed_students =
     [\<lparr>row_ID_Etudiant = 7, row_Nombre_Interactions = 50, row_Competences = Str ''['a', 'b']''\<rparr>,
      \<lparr>row_ID_Etudiant = 12, row_Nombre_Interactions = 100,
        row_Competences = Str ''[python, rust''\<rparr>]"

text \<open>Instances of the library of the collaborative-filtering models: fold scores
  (one score per fold) and the cross-validation of the library over them, the mean of a
  list, a training that
  fails and one that succeeds (the model is the list of ratings), a prediction run that
  fails and one that returns a prediction for each of the students 7 and 12 of the table
  of two rows (the skill of the other student), and \<^verbatim>\<open>int()\<close> on a text that is no
  number.\<close>

definition sample_fold_scores ::
    "algo \<Rightarrow> (string \<times> string \<times> rat) list \<Rightarrow> nat \<Rightarrow> error + rat cv_results" where
  "sample_fold_scores model data cv =
     Inr \<lparr>test_rmse = map (\<lambda>i. of_nat i / 10) [1 ..< Suc cv],
          test_mae = replicate cv (if model = SVD then 1 / 5 else 2 / 5)\<rparr>"

definition sample_cross_validate ::
    "algo \<Rightarrow> (string \<times> string \<times> rat) list \<Rightarrow> nat \<Rightarrow> error + rat cv_results" where
  "sample_cross_validate = surprise_cross_validate sample_fold_scores"

definition sample_mean :: "rat list \<Rightarrow> rat" where
  "sample_mean xs = sum_list xs / of_nat (length xs)"

definition failing_fit ::
    "algo \<Rightarrow> (string \<times> string \<times> rat) list \<Rightarrow> error + (string \<times> string \<times> rat) list" where
  "failing_fit model ratings = Inl (LibraryError ''fit failed'')"

definition sample_fit ::
    "algo \<Rightarrow> (string \<times> string \<times> rat) list \<Rightarrow> error + (string \<times> string \<times> rat) list" where
  "sample_fit model ratings = Inr ratings"

definition failing_test :: "(string \<times> string \<times> rat) list \<Rightarrow> error + string prediction list" where
  "failing_test model = Inl (LibraryError ''test failed'')"

definition sample_test :: "(string \<times> string \<times> rat) list \<Rightarrow> error + string prediction list" where
  "sample_test model =
     Inr [\<lparr>uid = ''7'', iid = ''x'', est = 4\<rparr>, \<lparr>uid = ''12'', iid = ''a'', est = 3\<rparr>]"

definition no_int :: "string \<Rightarrow> error + int" where
  "no_int s = Inl (ValueError ''invalid literal for int()'')"

chapter \<open>Properties\<close>

section \<open>The video identifier\<close>

text \<open>
  C9. The video-link normalizer maps the URL
  \<^verbatim>\<open>https://www.youtube.com/watch?v=dQw4w9WgXcQ\<close> to the identifier \<^verbatim>\<open>dQw4w9WgXcQ\<close>,
  which has 11 characters, and yields no identifier for an absent URL (no link, or the
  empty string) and for the URL \<^verbatim>\<open>https://example.com/video\<close>, which does not match.
  The function returns an optional identifier in every case: it has no path that raises.
\<close>

theorem extract_youtube_id_examples:
  "extract_youtube_id (Some ''https://www.youtube.com/watch?v=dQw4w9WgXcQ'') = Some ''dQw4w9WgXcQ''
   \<and> length ''dQw4w9WgXcQ'' = 11
   \<and> extract_youtube_id None = None
   \<and> extract_youtube_id (Some '''') = None
   \<and> extract_youtube_id (Some ''https://example.com/video'') = None"
  by code_simp

section \<open>Content recommendations\<close>

lemma sorted_reverse_sorted: "sorted (rev (map f (sorted_reverse f xs)))"
  by (simp add: sorted_reverse_def rev_map)

lemma sorted_reverse_stable:
  "filter (\<lambda>x. f x = k) (sorted_reverse f xs) = filter (\<lambda>x. f x = k) xs"
  by (simp add: sorted_reverse_def rev_filter [symmetric] sort_key_stable)

lemma sorted_reverse_set: "set (sorted_reverse f xs) = set xs"
  by (simp add: sorted_reverse_def)

lemma sorted_reverse_Nil: "sorted_reverse f [] = []"
  by (simp add: sorted_reverse_def)

lemma sorted_rev_take: "sorted (rev xs) \<Longrightarrow> sorted (rev (take n xs))"
  by (simp add: rev_take sorted_wrt_drop)

text \<open>When the copy of the module returns, no item matched and the user has no
  interests: it returns the empty list, and so does \<^verbatim>\<open>app.py\<close>.\<close>

lemma rm_collect_Inr:
  "rm_collect lower keywords interacted contents = Inr out \<Longrightarrow>
     out = [] \<and> collect lower keywords interacted contents = []"
  by (induction contents) (auto simp: Let_def split: if_splits)

lemma rm_generate_recommendations_Inr:
  "rm_generate_recommendations lower up raw = Inr out \<Longrightarrow>
     out = [] \<and> generate_recommendations lower up raw = []"
  unfolding rm_generate_recommendations_def generate_recommendations_def rm_user_interests_def
  by (auto simp: Let_def user_interests_def sorted_reverse_def
      split: option.splits if_splits sum.splits dest!: rm_collect_Inr)

text \<open>
  C4. For every user profile and every catalog, the list \<^verbatim>\<open>generate_recommendations\<close>
  returns is sorted by \<open>Rating\<close> in descending order and has at most 10 elements; the
  records of equal rating stand in the order in which the loop appended them, the order
  of the catalog (for every rating \<open>r\<close>, the records of rating \<open>r\<close> in the result are
  the first of the records of rating \<open>r\<close> in the list \<^verbatim>\<open>recommendations\<close>); a record
  made from an item without a rating has the rating 0. The copy of the module returns
  the same list whenever it returns.
\<close>

theorem generate_recommendations_sorted:
  "sorted (rev (map Rating (generate_recommendations lower up raw)))
   \<and> length (generate_recommendations lower up raw) \<le> 10
   \<and> (\<forall>p contents r.
         up = Some p \<and> all_contents_list raw = Some contents \<longrightarrow>
         prefix (filter (\<lambda>x. Rating x = r) (generate_recommendations lower up raw))
                (filter (\<lambda>x. Rating x = r)
                   (collect lower (user_skills lower p @ user_interests lower p)
                      (interacted_course_ids p) contents)))
   \<and> (\<forall>content_id c. c_Rating c = None \<longrightarrow> Rating (recommendation_of content_id c) = 0)
   \<and> (\<forall>out. rm_generate_recommendations lower up raw = Inr out \<longrightarrow>
         out = generate_recommendations lower up raw)"
proof (intro conjI allI impI)
  show "sorted (rev (map Rating (generate_recommendations lower up raw)))"
    unfolding generate_recommendations_def
    by (auto simp: Let_def take_map [symmetric] sorted_rev_take sorted_reverse_sorted
        split: option.splits)
  show "length (generate_recommendations lower up raw) \<le> 10"
    unfolding generate_recommendations_def
    by (auto simp: Let_def split: option.splits)
next
  fix p contents r
  assume h: "up = Some p \<and> all_contents_list raw = Some contents"
  let ?recs = "collect lower (user_skills lower p @ user_interests lower p)
                  (interacted_course_ids p) contents"
  have raw: "raw \<noteq> CNone"
    using h by (auto simp: all_contents_list_def)
  have out: "generate_recommendations lower up raw = take 10 (sorted_reverse Rating ?recs)"
    using h raw unfolding generate_recommendations_def by (simp add: Let_def)
  have "prefix (filter (\<lambda>x. Rating x = r) (take 10 (sorted_reverse Rating ?recs)))
               (filter (\<lambda>x. Rating x = r) (sorted_reverse Rating ?recs))"
    by (rule filter_mono_prefix) (rule take_is_prefix)
  then show "prefix (filter (\<lambda>x. Rating x = r) (generate_recommendations lower up raw))
               (filter (\<lambda>x. Rating x = r) ?recs)"
    by (simp add: out sorted_reverse_stable)
next
  fix content_id and c :: content
  assume "c_Rating c = None"
  then show "Rating (recommendation_of content_id c) = 0"
    by (simp add: recommendation_of_def get_or_def Let_def)
next
  fix out
  assume "rm_generate_recommendations lower up raw = Inr out"
  then show "out = generate_recommendations lower up raw"
    by (auto dest: rm_generate_recommendations_Inr)
qed

text \<open>The theorem at a catalog of five items and a hole, for a user with the skill
  Rust: four items match, two of them with the rating 4 and one without a rating. For a
  user with the skill Go no item matches and the copy of the module returns as well.\<close>

theorem generate_recommendations_sorted_witness:
  "map rec_id (generate_recommendations ascii_lower (Some (tagged_profile [SStr ''Rust''] []))
      (CList rust_entries)) = [''3'', ''0'', ''4'', ''5'']
   \<and> map Rating (generate_recommendations ascii_lower (Some (tagged_profile [SStr ''Rust''] []))
      (CList rust_entries)) = [9, 4, 4, 0]
   \<and> sorted (rev [9, 4, 4, 0 :: rat])
   \<and> all_contents_list (CList rust_entries) = Some (contents_of_list rust_entries)
   \<and> prefix
       (filter (\<lambda>x. Rating x = 4)
          (generate_recommendations ascii_lower (Some (tagged_profile [SStr ''Rust''] []))
             (CList rust_entries)))
       (filter (\<lambda>x. Rating x = 4)
          (collect ascii_lower
             (user_skills ascii_lower (tagged_profile [SStr ''Rust''] [])
              @ user_interests ascii_lower (tagged_profile [SStr ''Rust''] []))
             (interacted_course_ids (tagged_profile [SStr ''Rust''] []))
             (contents_of_list rust_entries)))
   \<and> c_Rating (course None ''Rust macros'' ''Systems'' None) = None
   \<and> Rating (recommendation_of ''5'' (course None ''Rust macros'' ''Systems'' None)) = 0
   \<and> rm_generate_recommendations ascii_lower (Some (tagged_profile [SStr ''Go''] []))
        (CList rust_entries) = Inr []
   \<and> generate_recommendations ascii_lower (Some (tagged_profile [SStr ''Go''] []))
        (CList rust_entries) = []"
proof -
  let ?up = "Some (tagged_profile [SStr ''Rust''] [])"
  have ids: "map rec_id (generate_recommendations ascii_lower ?up (CList rust_entries))
      = [''3'', ''0'', ''4'', ''5'']"
    by code_simp
  have ratings: "map Rating (generate_recommendations ascii_lower ?up (CList rust_entries))
      = [9, 4, 4, 0]"
    by code_simp
  have contents: "all_contents_list (CList rust_entries) = Some (contents_of_list rust_entries)"
    by (simp add: all_contents_list_def)
  have none: "c_Rating (course None ''Rust macros'' ''Systems'' None) = None"
    by (simp add: course_def)
  have go: "rm_generate_recommendations ascii_lower (Some (tagged_profile [SStr ''Go''] []))
        (CList rust_entries) = Inr []"
    by code_simp
  note rust = generate_recommendations_sorted [of ascii_lower ?up "CList rust_entries"]
  note golang = generate_recommendations_sorted
      [of ascii_lower "Some (tagged_profile [SStr ''Go''] [])" "CList rust_entries"]
  have sorted: "sorted (rev [9, 4, 4, 0 :: rat])"
    using rust ratings by simp
  have stable: "prefix
       (filter (\<lambda>x. Rating x = 4) (generate_recommendations ascii_lower ?up (CList rust_entries)))
       (filter (\<lambda>x. Rating x = 4)
          (collect ascii_lower
             (user_skills ascii_lower (tagged_profile [SStr ''Rust''] [])
              @ user_interests ascii_lower (tagged_profile [SStr ''Rust''] []))
             (interacted_course_ids (tagged_profile [SStr ''Rust''] []))
             (contents_of_list rust_entries)))"
    using rust contents by blast
  have zero: "Rating (recommendation_of ''5'' (course None ''Rust macros'' ''Systems'' None)) = 0"
    using rust none by blast
  have same: "generate_recommendations ascii_lower (Some (tagged_profile [SStr ''Go''] []))
        (CList rust_entries) = []"
    using golang go by auto
  show ?thesis
    using ids ratings sorted contents stable none zero go same by simp
qed

text \<open>An item is left out when the string of its \<^verbatim>\<open>id\<close> is among the interacted
  identifiers, so no record of the result carries an interacted identifier; an item
  whose document stores no \<^verbatim>\<open>id\<close> has its key or index for \<^verbatim>\<open>id\<close> and is left out
  when that is interacted.\<close>

lemma content_id_of_with_id:
  "content_id_of (with_id cid c) = py_str (get_or (c_id c) cid)"
  by (simp add: content_id_of_def with_id_def get_or_def)

lemma collect_rec_id:
  "r \<in> set (collect lower keywords interacted contents) \<Longrightarrow> rec_id r \<notin> set interacted"
  by (induction contents)
     (auto simp: Let_def recommendation_of_def split: if_splits)

lemma generate_recommendations_rec_id:
  "r \<in> set (generate_recommendations lower (Some p) raw) \<Longrightarrow>
     rec_id r \<notin> set (interacted_course_ids p)"
  unfolding generate_recommendations_def
  by (auto simp: Let_def sorted_reverse_set split: option.splits if_splits
      dest!: in_set_takeD collect_rec_id)

lemma collect_interacted_key:
  "c_id c = None \<Longrightarrow> py_str cid \<in> set interacted \<Longrightarrow>
     collect lower keywords interacted (with_id cid c # rest)
       = collect lower keywords interacted rest"
  by (simp add: content_id_of_with_id get_or_def)

text \<open>
  C5. The \<^verbatim>\<open>id\<close> of an item is the one its document stores, if it stores one, and
  the key or the index only otherwise; so an item whose key or index is interacted is
  recommended when its document stores another \<^verbatim>\<open>id\<close>. The user has the skill Rust
  and has interacted with the content of key \<^verbatim>\<open>k1\<close>; the catalog is the dict with the
  one key \<^verbatim>\<open>k1\<close>. The document stores the \<^verbatim>\<open>id\<close> \<^verbatim>\<open>k9\<close>: it is recommended, under
  the identifier \<^verbatim>\<open>k9\<close>. Without the stored \<^verbatim>\<open>id\<close> it is left out. The same with a
  list and the index 0.
\<close>

theorem interacted_key_with_stored_id_recommended:
  "interacted_course_ids (tagged_profile [SStr ''Rust''] [SStr ''k1'']) = [''k1'']
   \<and> generate_recommendations ascii_lower (Some (tagged_profile [SStr ''Rust''] [SStr ''k1'']))
        (CDict [(''k1'', Item (course (Some (SStr ''k9'')) ''Rust basics'' ''Systems'' (Some 5)))])
      = [\<lparr>rec_id = ''k9'', Title = ''Rust basics'', Category = ''Systems'',
           Description = ''No description available'', Link = ''#'', EmbedLink = None,
           Rating = 5\<rparr>]
   \<and> generate_recommendations ascii_lower (Some (tagged_profile [SStr ''Rust''] [SStr ''k1'']))
        (CDict [(''k1'', Item (course None ''Rust basics'' ''Systems'' (Some 5)))]) = []
   \<and> interacted_course_ids (tagged_profile [SStr ''Rust''] [SInt 0]) = [''0'']
   \<and> map rec_id
        (generate_recommendations ascii_lower (Some (tagged_profile [SStr ''Rust''] [SInt 0]))
           (CList [Item (course (Some (SInt 7)) ''Rust basics'' ''Systems'' (Some 5))])) = [''7'']
   \<and> generate_recommendations ascii_lower (Some (tagged_profile [SStr ''Rust''] [SInt 0]))
        (CList [Item (course None ''Rust basics'' ''Systems'' (Some 5))]) = []"
  by code_simp

text \<open>
  C10. The two copies of \<^verbatim>\<open>generate_recommendations\<close> differ: where \<^verbatim>\<open>app.py\<close>
  returns a record, the copy of the module raises NameError, for the undefined
  \<^verbatim>\<open>extract_youtube_id\<close> when an item matches and for the undefined \<^verbatim>\<open>item\<close> when the
  user has an interest.
\<close>

theorem generate_recommendations_copies_differ:
  "generate_recommendations ascii_lower (Some (tagged_profile [SStr ''Rust''] []))
     (CList [Item (course None ''Intro to Rust'' ''Systems'' (Some 4))])
   = [\<lparr>rec_id = ''0'', Title = ''Intro to Rust'', Category = ''Systems'',
        Description = ''No description available'', Link = ''#'', EmbedLink = None,
        Rating = 4\<rparr>]
   \<and> rm_generate_recommendations ascii_lower (Some (tagged_profile [SStr ''Rust''] []))
     (CList [Item (course None ''Intro to Rust'' ''Systems'' (Some 4))])
   = Inl (NameError ''extract_youtube_id'')
   \<and> generate_recommendations ascii_lower
       (Some ((tagged_profile [] [])\<lparr>Centres_d_Interet := [SStr ''cooking'']\<rparr>))
       (CList [Item (course None ''Intro to Rust'' ''Systems'' (Some 4))]) = []
   \<and> rm_generate_recommendations ascii_lower
       (Some ((tagged_profile [] [])\<lparr>Centres_d_Interet := [SStr ''cooking'']\<rparr>))
       (CList [Item (course None ''Intro to Rust'' ''Systems'' (Some 4))])
   = Inl (NameError ''item'')"
  by code_simp

section \<open>Similar users\<close>

text \<open>The query of \<^verbatim>\<open>KNN_similarity\<close> is a list around an array of one row: it
  has three dimensions, so \<^verbatim>\<open>kneighbors\<close> raises ValueError in every call that reaches
  it, and the \<^verbatim>\<open>except\<close> clause returns the empty list. \<^verbatim>\<open>KNN_similarity\<close> returns
  the empty list in every call.\<close>

lemma ndim_query: "ndim (Nested [reshape_1_row (array1 v)]) = 3"
  by (cases v) (simp_all add: reshape_1_row_def array1_def)

lemma kneighbors_query:
  "kneighbors search fitted k (Nested [reshape_1_row (array1 v)])
     = Inl (ValueError ''Found array with dim 3 or more. NearestNeighbors expected <= 2.'')"
  unfolding kneighbors_def ndim_query by simp

lemma knn_try_raises: "knn_try search users ids vectors v k \<noteq> Inr r"
  unfolding knn_try_def kneighbors_query by simp

lemma KNN_similarity_Nil: "KNN_similarity lower search users current_user_id k = []"
  unfolding KNN_similarity_def
  by (auto simp: Let_def knn_try_raises split: option.splits sum.splits)

text \<open>
  C3. Two users with the same skill; the first asks for five similar users. The target
  has a stored profile, one other user exists, the vocabulary has two terms, and the
  vectors of the two users are those of the terms they hold. The query built from the
  vector of the target has three dimensions. The result should be the record of the
  other user; it is the empty list, whatever the search would return.
\<close>

theorem KNN_similarity_two_users:
  "map_of two_users ''u1'' = Some (tagged_profile [SStr ''Python''] [])
   \<and> map fst (filter (\<lambda>(uid, data). uid \<noteq> ''u1'') two_users) = [''u2'']
   \<and> sorted_list_of_set
        (set (concat (map (\<lambda>(uid, user_data). profile_terms ascii_lower user_data) two_users)))
      = [''3'', ''python'']
   \<and> vectorize_user_profile ascii_lower (tagged_profile [SStr ''Python''] []) [''3'', ''python'']
      = [0, 1]
   \<and> vectorize_user_profile ascii_lower (tagged_profile [SStr ''python'', SInt 3] [])
        [''3'', ''python''] = [1, 1]
   \<and> ndim (Nested [reshape_1_row (array1 [0, 1])]) = 3
   \<and> KNN_similarity ascii_lower search two_users ''u1'' 5 = []"
proof (intro conjI)
  show "map_of two_users ''u1'' = Some (tagged_profile [SStr ''Python''] [])"
    by code_simp
  show "map fst (filter (\<lambda>(uid, data). uid \<noteq> ''u1'') two_users) = [''u2'']"
    by code_simp
  show "sorted_list_of_set
        (set (concat (map (\<lambda>(uid, user_data). profile_terms ascii_lower user_data) two_users)))
      = [''3'', ''python'']"
    by code_simp
  show "vectorize_user_profile ascii_lower (tagged_profile [SStr ''Python''] [])
      [''3'', ''python''] = [0, 1]"
    by code_simp
  show "vectorize_user_profile ascii_lower (tagged_profile [SStr ''python'', SInt 3] [])
      [''3'', ''python''] = [1, 1]"
    by code_simp
  show "ndim (Nested [reshape_1_row (array1 [0, 1])]) = 3"
    by (rule ndim_query)
  show "KNN_similarity ascii_lower search two_users ''u1'' 5 = []"
    by (rule KNN_similarity_Nil)
qed

section \<open>Profiles without tags\<close>

lemma matches_no_keywords: "matches lower [] c = False"
  by (simp add: matches_def Let_def)

lemma collect_no_keywords: "collect lower [] interacted contents = []"
  by (induction contents) (simp_all add: Let_def matches_no_keywords)

lemma rm_collect_no_keywords: "rm_collect lower [] interacted contents = Inr []"
  by (induction contents) (simp_all add: Let_def matches_no_keywords)

text \<open>
  C6. For the empty profile (a user without a stored document) and for every profile
  whose skills, interests and communities are empty, both copies of
  \<^verbatim>\<open>generate_recommendations\<close> return the empty list for every catalog, and
  \<^verbatim>\<open>KNN_similarity\<close> returns the empty list for every population in which the profile
  is the one stored for the target user.
\<close>

theorem empty_profile_no_recommendations:
  "generate_recommendations lower None raw = []
   \<and> rm_generate_recommendations lower None raw = Inr []
   \<and> (Competences p = [] \<and> Centres_d_Interet p = [] \<and> Communautes p = [] \<longrightarrow>
        generate_recommendations lower (Some p) raw = []
      \<and> rm_generate_recommendations lower (Some p) raw = Inr []
      \<and> (map_of all_users_data current_user_id = Some p \<longrightarrow>
           KNN_similarity lower search all_users_data current_user_id k = []))"
  unfolding generate_recommendations_def rm_generate_recommendations_def
  by (auto simp: user_skills_def user_interests_def rm_user_interests_def Let_def
      collect_no_keywords rm_collect_no_keywords sorted_reverse_Nil KNN_similarity_Nil
      split: option.splits)

theorem empty_profile_no_recommendations_witness:
  "Competences (tagged_profile [] []) = []
   \<and> Centres_d_Interet (tagged_profile [] []) = []
   \<and> Communautes (tagged_profile [] []) = []
   \<and> generate_recommendations ascii_lower (Some (tagged_profile [] [])) (CList rust_entries) = []
   \<and> rm_generate_recommendations ascii_lower (Some (tagged_profile [] [])) (CList rust_entries)
      = Inr []
   \<and> map_of newcomer_and_peer ''u0'' = Some (tagged_profile [] [])
   \<and> KNN_similarity ascii_lower sample_search newcomer_and_peer ''u0'' 5 = []"
proof -
  have tags: "Competences (tagged_profile [] []) = []
      \<and> Centres_d_Interet (tagged_profile [] []) = []
      \<and> Communautes (tagged_profile [] []) = []"
    by (simp add: tagged_profile_def)
  have stored: "map_of newcomer_and_peer ''u0'' = Some (tagged_profile [] [])"
    by (simp add: newcomer_and_peer_def)
  show ?thesis
    using tags stored
      empty_profile_no_recommendations [of ascii_lower "CList rust_entries"
        "tagged_profile [] []" newcomer_and_peer "''u0''" sample_search 5]
    by simp
qed

section \<open>Double-precision arithmetic\<close>

text \<open>
  \<open>exponent x\<close> is the power of two at or below the magnitude of \<open>x\<close>, and
  \<open>round_double x\<close> is a multiple of the spacing of the doubles at \<open>x\<close> that is at
  most half a spacing away from \<open>x\<close>. The double nearest to 1/10 is
  0.1000000000000000055511151231257827, integers up to \<open>2 ^ 53\<close> are doubles, and a
  tie goes to the even significand.
\<close>

lemma pow2_powi: "pow2 k = 2 powi k"
  by (simp add: pow2_def power_int_def power_inverse [symmetric] inverse_eq_divide power_one_over)

lemma round_half_even_bound: "\<bar>of_int (round_half_even x) - x\<bar> \<le> 1 / 2"
proof -
  have "of_int \<lfloor>x\<rfloor> \<le> x" "x < of_int \<lfloor>x\<rfloor> + 1"
    by linarith+
  then show ?thesis
    unfolding round_half_even_def Let_def by (auto simp: abs_le_iff) 
qed

lemma bitlen_powi:
  assumes "0 < p"
  shows "(2::rat) powi (bitlen p - 1) \<le> of_int p \<and> of_int p < (2::rat) powi (bitlen p)"
proof -
  have b: "2 ^ nat (bitlen p - 1) \<le> p \<and> p < 2 ^ nat (bitlen p)"
    using assms by (rule bitlen_bounds)
  have pos: "1 \<le> bitlen p"
    using assms bitlen_eq_zero_iff [of p] bitlen_nonneg [of p] by linarith
  have "(of_int (2 ^ nat (bitlen p - 1)) :: rat) \<le> of_int p"
    using b by (simp only: of_int_le_iff)
  moreover have "(of_int p :: rat) < of_int (2 ^ nat (bitlen p))"
    using b by (simp only: of_int_less_iff)
  ultimately show ?thesis
    using pos by (simp add: power_int_def)
qed

lemma exponent_bounds:
  assumes "x \<noteq> 0"
  shows "pow2 (exponent x) \<le> \<bar>x\<bar> \<and> \<bar>x\<bar> < pow2 (exponent x + 1)"
proof -
  obtain p q where pq: "quotient_of \<bar>x\<bar> = (p, q)"
    by (cases "quotient_of \<bar>x\<bar>")
  have q: "0 < q"
    using pq by (rule quotient_of_denom_pos)
  have x: "\<bar>x\<bar> = of_int p / of_int q"
    using pq by (rule quotient_of_div)
  have "0 < of_int p / (of_int q :: rat)"
    using assms x by (metis zero_less_abs_iff)
  then have p: "0 < p"
    using q by (simp add: zero_less_divide_iff)
  define k where "k = bitlen p - bitlen q"
  note bp = bitlen_powi [OF p] and bq = bitlen_powi [OF q]
  have "of_int p / of_int q < (2::rat) powi (bitlen p) / 2 powi (bitlen q - 1)"
    using bp bq p q by (intro frac_less) auto
  also have "\<dots> = 2 powi (k + 1)"
    by (simp add: k_def power_int_diff [symmetric] algebra_simps)
  finally have up: "\<bar>x\<bar> < 2 powi (k + 1)"
    using x by simp
  have "(2::rat) powi (k - 1) = 2 powi (bitlen p - 1) / 2 powi (bitlen q)"
    by (simp add: k_def power_int_diff [symmetric] algebra_simps)
  also have "\<dots> \<le> of_int p / of_int q"
    using bp bq p q by (intro frac_le) auto
  finally have lo: "2 powi (k - 1) \<le> \<bar>x\<bar>"
    using x by simp
  show ?thesis
    using up lo by (auto simp add: exponent_def pq k_def [symmetric] pow2_powi Let_def)
qed

lemma round_double_error:
  assumes "x \<noteq> 0"
  shows "\<bar>round_double x - x\<bar> \<le> pow2 (max (exponent x) (- 1022) - 52) / 2"
proof -
  define ulp where "ulp = pow2 (max (exponent x) (- 1022) - 52)"
  have pos: "0 < ulp"
    by (simp add: ulp_def pow2_powi)
  have "\<bar>of_int (round_half_even (x / ulp)) - x / ulp\<bar> * ulp \<le> 1 / 2 * ulp"
    using round_half_even_bound [of "x / ulp"] pos by (intro mult_right_mono) auto
  moreover have "(of_int (round_half_even (x / ulp)) - x / ulp) * ulp
      = of_int (round_half_even (x / ulp)) * ulp - x"
    using pos by (simp add: left_diff_distrib)
  then have "\<bar>of_int (round_half_even (x / ulp)) - x / ulp\<bar> * ulp
      = \<bar>of_int (round_half_even (x / ulp)) * ulp - x\<bar>"
    using pos abs_mult [of "of_int (round_half_even (x / ulp)) - x / ulp" ulp] by simp
  ultimately show ?thesis
    using assms by (simp add: round_double_def Let_def ulp_def [symmetric])
qed

lemma round_double_examples:
  "round_double (1 / 10) = 3602879701896397 / 36028797018963968
   \<and> round_double 1 = 1
   \<and> round_double (2 ^ 53 + 1) = 2 ^ 53
   \<and> round_double (2 ^ 53 + 3) = 2 ^ 53 + 4"
  by (intro conjI; code_simp)

section \<open>The ratings table\<close>

lemma apply_literal_eval_Sized:
  "list_all2 (\<lambda>x cs. \<exists>s. x = Str s \<and> literal_eval s = Inr (Sized cs)) cells skills \<Longrightarrow>
   apply_literal_eval literal_eval cells = Inr (map Sized skills)"
  by (induction cells skills rule: list_all2_induct) auto

lemma apply_literal_eval_fails:
  "Str s \<in> set cells \<Longrightarrow> literal_eval s = Inl err \<Longrightarrow>
     \<exists>e. apply_literal_eval literal_eval cells = Inl e"
  by (induction cells) (auto split: sum.splits cell.splits)

lemma rating_loop_Sized:
  "length df = length skills \<Longrightarrow>
   rating_loop (zip df (map Sized skills)) ratings =
     Inr (ratings @
          concat (map (\<lambda>(row, competences).
                         map (\<lambda>competence.
                                (str_int (row_ID_Etudiant row), competence,
                                 normalized_score (row_Nombre_Interactions row) (length competences)))
                             competences)
                      (zip df skills)))"
  by (induction df skills arbitrary: ratings rule: list_induct2) simp_all

lemma create_ratings_df_Sized:
  assumes "list_all2 (\<lambda>row cs. \<exists>s. row_Competences row = Str s \<and> literal_eval s = Inr (Sized cs))
             df skills"
  shows "create_ratings_df literal_eval (Inr df) =
     ([], Inr (Frame (concat (map (\<lambda>(row, competences).
                         map (\<lambda>competence.
                                (str_int (row_ID_Etudiant row), competence,
                                 normalized_score (row_Nombre_Interactions row) (length competences)))
                             competences)
                      (zip df skills)))))"
proof -
  have len: "length df = length skills"
    using assms by (rule list_all2_lengthD)
  have "list_all2 (\<lambda>x cs. \<exists>s. x = Str s \<and> literal_eval s = Inr (Sized cs))
          (map row_Competences df) skills"
    using assms by (simp add: list_all2_map1)
  then have "apply_literal_eval literal_eval (map row_Competences df) = Inr (map Sized skills)"
    by (rule apply_literal_eval_Sized)
  then show ?thesis
    by (simp add: create_ratings_df_def rating_loop_Sized [OF len])
qed

text \<open>The scores of the examples, in double precision.\<close>

lemma normalized_score_50_2: "normalized_score 50 (Suc (Suc 0)) = 3"
  by code_simp

lemma normalized_score_100_1: "normalized_score 100 (Suc 0) = 11 / 2"
  by code_simp

lemma normalized_score_30_3:
  "normalized_score 30 (Suc (Suc (Suc 0))) = 2195504818343117 / 1125899906842624"
  by code_simp

text \<open>
  C1. The first row of the table \<open>malformed_students\<close> has a skills text that parses to
  the list a, b, and the table has a second row whose text does not parse:
  \<^verbatim>\<open>create_ratings_df\<close> returns the table without columns and rows, with no tuple for
  the first student. And the score of a row with 30 interactions and 3 skills is the
  double 1.9500000000000002 (2195504818343117 / 2 ^ 50), where the formula in exact
  arithmetic gives 39/20.
\<close>

theorem create_ratings_df_tuples_counterexample:
  "row_Competences (hd malformed_students) = Str ''['a', 'b']''
   \<and> sample_literal_eval ''['a', 'b']'' = Inr (Sized [''a'', ''b''])
   \<and> create_ratings_df sample_literal_eval (Inr malformed_students)
       = ([Error_parsing_column (LibraryError ''invalid syntax'')], Inr NoFrame)
   \<and> normalized_score 30 3 = 2195504818343117 / 1125899906842624
   \<and> min (30 / 100 * 5) 5 * (1 + 3 / 10) = (39 / 20 :: rat)"
proof (intro conjI)
  show "row_Competences (hd malformed_students) = Str ''['a', 'b']''"
    by (simp add: malformed_students_def)
  show "sample_literal_eval ''['a', 'b']'' = Inr (Sized [''a'', ''b''])"
    by (simp add: sample_literal_eval_def)
  show "create_ratings_df sample_literal_eval (Inr malformed_students)
       = ([Error_parsing_column (LibraryError ''invalid syntax'')], Inr NoFrame)"
    by (simp add: create_ratings_df_def sample_literal_eval_def malformed_students_def)
  show "normalized_score 30 3 = 2195504818343117 / 1125899906842624"
    by code_simp
  show "min (30 / 100 * 5) 5 * (1 + 3 / 10) = (39 / 20 :: rat)"
    by simp
qed

text \<open>
  C1, as amended. When the skills cell of every row of the table is a text that parses
  to a list (\<open>skills\<close> holds the list of each row), \<^verbatim>\<open>create_ratings_df\<close> returns the
  table that has, row after row, one tuple (student, skill, score) for every element of
  the row's list, each with the score min(interactions / 100 * 5, 5) * (1 + skillCount
  / 10) of the row computed in double precision, every operation rounded to the nearest
  double. A row with 50 interactions and the skills a, b gives the score 3 in both
  tuples; a row with 100 interactions and the skill x gives the tuple (student, x,
  11/2); a row with 30 interactions and the skills a, b, c gives the score
  1.9500000000000002 in its three tuples. When the skills text of any row fails to
  parse, the function prints the exception and returns the table without columns and
  rows: no row of the table gets a tuple.
\<close>

theorem create_ratings_df_tuples:
  "(list_all2 (\<lambda>row cs. \<exists>s. row_Competences row = Str s \<and> literal_eval s = Inr (Sized cs))
      df skills \<longrightarrow>
      create_ratings_df literal_eval (Inr df) =
        ([], Inr (Frame (concat (map (\<lambda>(row, competences).
               map (\<lambda>competence.
                      (str_int (row_ID_Etudiant row), competence,
                       round_double
                         (min (round_double
                                 (round_double
                                    (round_double (of_int (row_Nombre_Interactions row)) / 100)
                                  * 5))
                              5
                          * round_double
                              (1 + round_double (of_nat (length competences) / 10)))))
                   competences)
             (zip df skills))))))
   \<and> (literal_eval s = Inr (Sized [a, b]) \<longrightarrow>
        create_ratings_df literal_eval
          (Inr [\<lparr>row_ID_Etudiant = student, row_Nombre_Interactions = 50,
                 row_Competences = Str s\<rparr>]) =
          ([], Inr (Frame [(str_int student, a, 3), (str_int student, b, 3)])))
   \<and> (literal_eval s = Inr (Sized [x]) \<longrightarrow>
        create_ratings_df literal_eval
          (Inr [\<lparr>row_ID_Etudiant = student, row_Nombre_Interactions = 100,
                 row_Competences = Str s\<rparr>]) =
          ([], Inr (Frame [(str_int student, x, 11 / 2)])))
   \<and> (literal_eval s = Inr (Sized [a, b, c]) \<longrightarrow>
        create_ratings_df literal_eval
          (Inr [\<lparr>row_ID_Etudiant = student, row_Nombre_Interactions = 30,
                 row_Competences = Str s\<rparr>]) =
          ([], Inr (Frame [(str_int student, a, 2195504818343117 / 1125899906842624),
                           (str_int student, b, 2195504818343117 / 1125899906842624),
                           (str_int student, c, 2195504818343117 / 1125899906842624)])))
   \<and> (Str s \<in> set (map row_Competences df) \<and> literal_eval s = Inl err \<longrightarrow>
        (\<exists>e. create_ratings_df literal_eval (Inr df)
               = ([Error_parsing_column e], Inr NoFrame)))"
proof (intro conjI impI)
  assume "list_all2 (\<lambda>row cs. \<exists>s. row_Competences row = Str s \<and> literal_eval s = Inr (Sized cs))
            df skills"
  then show "create_ratings_df literal_eval (Inr df) =
        ([], Inr (Frame (concat (map (\<lambda>(row, competences).
               map (\<lambda>competence.
                      (str_int (row_ID_Etudiant row), competence,
                       round_double
                         (min (round_double
                                 (round_double
                                    (round_double (of_int (row_Nombre_Interactions row)) / 100)
                                  * 5))
                              5
                          * round_double
                              (1 + round_double (of_nat (length competences) / 10)))))
                   competences)
             (zip df skills)))))"
    by (simp add: create_ratings_df_Sized normalized_score_def Let_def)
next
  assume "literal_eval s = Inr (Sized [a, b])"
  then show "create_ratings_df literal_eval
          (Inr [\<lparr>row_ID_Etudiant = student, row_Nombre_Interactions = 50,
                 row_Competences = Str s\<rparr>]) =
          ([], Inr (Frame [(str_int student, a, 3), (str_int student, b, 3)]))"
    by (simp add: create_ratings_df_def normalized_score_50_2)
next
  assume "literal_eval s = Inr (Sized [x])"
  then show "create_ratings_df literal_eval
          (Inr [\<lparr>row_ID_Etudiant = student, row_Nombre_Interactions = 100,
                 row_Competences = Str s\<rparr>]) =
          ([], Inr (Frame [(str_int student, x, 11 / 2)]))"
    by (simp add: create_ratings_df_def normalized_score_100_1)
next
  assume "literal_eval s = Inr (Sized [a, b, c])"
  then show "create_ratings_df literal_eval
          (Inr [\<lparr>row_ID_Etudiant = student, row_Nombre_Interactions = 30,
                 row_Competences = Str s\<rparr>]) =
          ([], Inr (Frame [(str_int student, a, 2195504818343117 / 1125899906842624),
                           (str_int student, b, 2195504818343117 / 1125899906842624),
                           (str_int student, c, 2195504818343117 / 1125899906842624)]))"
    by (simp add: create_ratings_df_def normalized_score_30_3)
next
  assume "Str s \<in> set (map row_Competences df) \<and> literal_eval s = Inl err"
  then obtain e where "apply_literal_eval literal_eval (map row_Competences df) = Inl e"
    using apply_literal_eval_fails by blast
  then have "create_ratings_df literal_eval (Inr df) = ([Error_parsing_column e], Inr NoFrame)"
    by (simp add: create_ratings_df_def)
  then show "\<exists>e. create_ratings_df literal_eval (Inr df)
               = ([Error_parsing_column e], Inr NoFrame)"
    by blast
qed

text \<open>The theorem at rows of the students 7, 8 and 12, one by one, at the table of
  the students 7 and 12, and at the table whose second row does not parse.\<close>

theorem create_ratings_df_tuples_witness:
  "sample_literal_eval ''['a', 'b']'' = Inr (Sized [''a'', ''b''])
   \<and> sample_literal_eval ''['x']'' = Inr (Sized [''x''])
   \<and> sample_literal_eval ''['a', 'b', 'c']'' = Inr (Sized [''a'', ''b'', ''c''])
   \<and> create_ratings_df sample_literal_eval
        (Inr [\<lparr>row_ID_Etudiant = 7, row_Nombre_Interactions = 50,
               row_Competences = Str ''['a', 'b']''\<rparr>]) =
        ([], Inr (Frame [(''7'', ''a'', 3), (''7'', ''b'', 3)]))
   \<and> create_ratings_df sample_literal_eval
        (Inr [\<lparr>row_ID_Etudiant = 12, row_Nombre_Interactions = 100,
               row_Competences = Str ''['x']''\<rparr>]) =
        ([], Inr (Frame [(''12'', ''x'', 11 / 2)]))
   \<and> create_ratings_df sample_literal_eval
        (Inr [\<lparr>row_ID_Etudiant = 8, row_Nombre_Interactions = 30,
               row_Competences = Str ''['a', 'b', 'c']''\<rparr>]) =
        ([], Inr (Frame [(''8'', ''a'', 2195504818343117 / 1125899906842624),
                         (''8'', ''b'', 2195504818343117 / 1125899906842624),
                         (''8'', ''c'', 2195504818343117 / 1125899906842624)]))
   \<and> create_ratings_df sample_literal_eval
        (Inr [\<lparr>row_ID_Etudiant = 7, row_Nombre_Interactions = 50,
               row_Competences = Str ''['a', 'b']''\<rparr>,
              \<lparr>row_ID_Etudiant = 12, row_Nombre_Interactions = 100,
               row_Competences = Str ''['x']''\<rparr>]) =
        ([], Inr (Frame [(''7'', ''a'', 3), (''7'', ''b'', 3), (''12'', ''x'', 11 / 2)]))
   \<and> Str ''[python, rust'' \<in> set (map row_Competences malformed_students)
   \<and> sample_literal_eval ''[python, rust'' = Inl (LibraryError ''invalid syntax'')
   \<and> (\<exists>e. create_ratings_df sample_literal_eval (Inr malformed_students)
             = ([Error_parsing_column e], Inr NoFrame))"
proof -
  have ab: "sample_literal_eval ''['a', 'b']'' = Inr (Sized [''a'', ''b''])"
    by (simp add: sample_literal_eval_def)
  have x: "sample_literal_eval ''['x']'' = Inr (Sized [''x''])"
    by (simp add: sample_literal_eval_def)
  have abc: "sample_literal_eval ''['a', 'b', 'c']'' = Inr (Sized [''a'', ''b'', ''c''])"
    by (simp add: sample_literal_eval_def)
  have s7: "str_int 7 = ''7''" and s8: "str_int 8 = ''8''" and s12: "str_int 12 = ''12''"
    by code_simp+
  have scores:
    "round_double (min (round_double (round_double (round_double 50 / 100) * 5)) 5
       * round_double (1 + round_double (1 / 5))) = 3"
    "round_double (min (round_double (round_double (round_double 100 / 100) * 5)) 5
       * round_double (1 + round_double (1 / 10))) = 11 / 2"
    by code_simp+
  let ?r1 = "\<lparr>row_ID_Etudiant = 7, row_Nombre_Interactions = 50,
               row_Competences = Str ''['a', 'b']''\<rparr>"
  let ?r2 = "\<lparr>row_ID_Etudiant = 12, row_Nombre_Interactions = 100,
               row_Competences = Str ''['x']''\<rparr>"
  have both: "list_all2
      (\<lambda>row cs. \<exists>s. row_Competences row = Str s \<and> sample_literal_eval s = Inr (Sized cs))
      [?r1, ?r2] [[''a'', ''b''], [''x'']]"
    using ab x by simp
  have g: "create_ratings_df sample_literal_eval (Inr [?r1, ?r2]) =
        ([], Inr (Frame [(''7'', ''a'', 3), (''7'', ''b'', 3), (''12'', ''x'', 11 / 2)]))"
    using both
      create_ratings_df_tuples [where literal_eval = sample_literal_eval
        and df = "[?r1, ?r2]" and skills = "[[''a'', ''b''], [''x'']]"]
    by (simp add: s7 s12 scores)
  have e1: "create_ratings_df sample_literal_eval (Inr [?r1]) =
        ([], Inr (Frame [(''7'', ''a'', 3), (''7'', ''b'', 3)]))"
    using ab
      create_ratings_df_tuples [where literal_eval = sample_literal_eval
        and s = "''['a', 'b']''" and a = "''a''" and b = "''b''" and student = 7]
    by (simp add: s7)
  have e2: "create_ratings_df sample_literal_eval (Inr [?r2]) =
        ([], Inr (Frame [(''12'', ''x'', 11 / 2)]))"
    using x
      create_ratings_df_tuples [where literal_eval = sample_literal_eval
        and s = "''['x']''" and x = "''x''" and student = 12]
    by (simp add: s12)
  have e3: "create_ratings_df sample_literal_eval
        (Inr [\<lparr>row_ID_Etudiant = 8, row_Nombre_Interactions = 30,
               row_Competences = Str ''['a', 'b', 'c']''\<rparr>]) =
        ([], Inr (Frame [(''8'', ''a'', 2195504818343117 / 1125899906842624),
                         (''8'', ''b'', 2195504818343117 / 1125899906842624),
                         (''8'', ''c'', 2195504818343117 / 1125899906842624)]))"
    using abc
      create_ratings_df_tuples [where literal_eval = sample_literal_eval
        and s = "''['a', 'b', 'c']''" and a = "''a''" and b = "''b''" and c = "''c''"
        and student = 8]
    by (simp add: s8)
  have cell: "Str ''[python, rust'' \<in> set (map row_Competences malformed_students)"
    by (simp add: malformed_students_def)
  have fails: "sample_literal_eval ''[python, rust'' = Inl (LibraryError ''invalid syntax'')"
    by (simp add: sample_literal_eval_def)
  have e4: "\<exists>e. create_ratings_df sample_literal_eval (Inr malformed_students)
             = ([Error_parsing_column e], Inr NoFrame)"
    using cell fails
      create_ratings_df_tuples [where literal_eval = sample_literal_eval
        and s = "''[python, rust''" and df = malformed_students
        and err = "LibraryError ''invalid syntax''"]
    by blast
  show ?thesis
    using ab x abc g e1 e2 e3 cell fails e4 by simp
qed

text \<open>
  C2. A table with a row whose skills text does not parse: \<^verbatim>\<open>create_ratings_df\<close>
  prints the exception and returns the table without columns and rows; it does not
  raise.
\<close>

theorem create_ratings_df_parse_failure_counterexample:
  "create_ratings_df sample_literal_eval (Inr malformed_students)
   = ([Error_parsing_column (LibraryError ''invalid syntax'')], Inr NoFrame)"
  by (simp add: create_ratings_df_def sample_literal_eval_def malformed_students_def)

text \<open>
  C2, as amended. If the skills text of any row fails to parse,
  \<^verbatim>\<open>create_ratings_df\<close> prints the exception and returns the empty table
  \<^verbatim>\<open>pd.DataFrame()\<close>, with no row for any student; it does not raise.
  \<^verbatim>\<open>evaluate_surprise_models\<close> then returns the error object
  \<^verbatim>\<open>{"error": "No valid ratings data available"}\<close>, and \<^verbatim>\<open>train_knn_model\<close> and
  \<^verbatim>\<open>train_svd_model\<close> raise KeyError when they select the columns of the table.
\<close>

theorem create_ratings_df_parse_failure:
  "Str s \<in> set (map row_Competences df) \<and> literal_eval s = Inl err \<longrightarrow>
      (\<exists>e. create_ratings_df literal_eval (Inr df) = ([Error_parsing_column e], Inr NoFrame)
         \<and> evaluate_surprise_models literal_eval (Inr df) load_from_df cross_validate rounded_mean
             = ([Error_parsing_column e], Inr (Error_object ''No valid ratings data available''))
         \<and> train_knn_model literal_eval (Inr df) fit
             = ([Error_parsing_column e], Inl (KeyError ''user, item, rating''))
         \<and> train_svd_model literal_eval (Inr df) fit
             = ([Error_parsing_column e], Inl (KeyError ''user, item, rating'')))"
proof
  assume h: "Str s \<in> set (map row_Competences df) \<and> literal_eval s = Inl err"
  then obtain e where e: "apply_literal_eval literal_eval (map row_Competences df) = Inl e"
    using apply_literal_eval_fails by blast
  have c: "create_ratings_df literal_eval (Inr df) = ([Error_parsing_column e], Inr NoFrame)"
    by (simp add: create_ratings_df_def e)
  have "evaluate_surprise_models literal_eval (Inr df) load_from_df cross_validate rounded_mean
             = ([Error_parsing_column e], Inr (Error_object ''No valid ratings data available''))"
    by (simp add: evaluate_surprise_models_def evaluate_try_def c)
  moreover have "train_knn_model literal_eval (Inr df) fit
             = ([Error_parsing_column e], Inl (KeyError ''user, item, rating''))"
    by (simp add: train_knn_model_def train_with_def c)
  moreover have "train_svd_model literal_eval (Inr df) fit
             = ([Error_parsing_column e], Inl (KeyError ''user, item, rating''))"
    by (simp add: train_svd_model_def train_with_def c)
  ultimately show
    "\<exists>e. create_ratings_df literal_eval (Inr df) = ([Error_parsing_column e], Inr NoFrame)
         \<and> evaluate_surprise_models literal_eval (Inr df) load_from_df cross_validate rounded_mean
             = ([Error_parsing_column e], Inr (Error_object ''No valid ratings data available''))
         \<and> train_knn_model literal_eval (Inr df) fit
             = ([Error_parsing_column e], Inl (KeyError ''user, item, rating''))
         \<and> train_svd_model literal_eval (Inr df) fit
             = ([Error_parsing_column e], Inl (KeyError ''user, item, rating''))"
    using c by blast
qed

theorem create_ratings_df_parse_failure_witness:
  "Str ''[python, rust'' \<in> set (map row_Competences malformed_students)
   \<and> sample_literal_eval ''[python, rust'' = Inl (LibraryError ''invalid syntax'')
   \<and> (\<exists>e. create_ratings_df sample_literal_eval (Inr malformed_students)
              = ([Error_parsing_column e], Inr NoFrame)
         \<and> evaluate_surprise_models sample_literal_eval (Inr malformed_students) Inr
              sample_cross_validate sample_mean
              = ([Error_parsing_column e], Inr (Error_object ''No valid ratings data available''))
         \<and> train_knn_model sample_literal_eval (Inr malformed_students) sample_fit
              = ([Error_parsing_column e], Inl (KeyError ''user, item, rating''))
         \<and> train_svd_model sample_literal_eval (Inr malformed_students) sample_fit
              = ([Error_parsing_column e], Inl (KeyError ''user, item, rating'')))"
proof -
  have cell: "Str ''[python, rust'' \<in> set (map row_Competences malformed_students)"
    by (simp add: malformed_students_def)
  have fails: "sample_literal_eval ''[python, rust'' = Inl (LibraryError ''invalid syntax'')"
    by (simp add: sample_literal_eval_def)
  show ?thesis
    using cell fails
      create_ratings_df_parse_failure [where literal_eval = sample_literal_eval
        and s = "''[python, rust''" and df = malformed_students
        and err = "LibraryError ''invalid syntax''" and load_from_df = Inr
        and cross_validate = sample_cross_validate and rounded_mean = sample_mean
        and fit = sample_fit]
    by blast
qed

section \<open>The evaluation of the models\<close>

lemma evaluate_surprise_models_returns:
  "\<exists>r. snd (evaluate_surprise_models literal_eval read_csv load_from_df cross_validate
              rounded_mean) = Inr r"
  unfolding evaluate_surprise_models_def
  by (cases "evaluate_try literal_eval read_csv load_from_df cross_validate rounded_mean")
     (auto split: sum.splits)

text \<open>
  C7. The table of one student with two skills has two ratings, a non-empty ratings
  table, and \<^verbatim>\<open>evaluate_surprise_models\<close> returns an error object, not the metrics:
  the library's \<^verbatim>\<open>cross_validate\<close> refuses five folds over two ratings with
  ValueError, which the function prints and returns as the error object of its text.
\<close>

theorem evaluate_surprise_models_report_counterexample:
  "create_ratings_df sample_literal_eval (Inr one_student)
     = ([], Inr (Frame [(''7'', ''a'', 3), (''7'', ''b'', 3)]))
   \<and> evaluate_surprise_models sample_literal_eval (Inr one_student) Inr
        (surprise_cross_validate sample_fold_scores) sample_mean
     = ([Error_in_evaluate (ValueError ''Incorrect value for n_splits'')],
        Inr (Error_object ''Incorrect value for n_splits''))"
proof (intro conjI)
  show table: "create_ratings_df sample_literal_eval (Inr one_student)
     = ([], Inr (Frame [(''7'', ''a'', 3), (''7'', ''b'', 3)]))"
    by code_simp
  show "evaluate_surprise_models sample_literal_eval (Inr one_student) Inr
        (surprise_cross_validate sample_fold_scores) sample_mean
     = ([Error_in_evaluate (ValueError ''Incorrect value for n_splits'')],
        Inr (Error_object ''Incorrect value for n_splits''))"
    by (simp add: evaluate_surprise_models_def evaluate_try_def table
          surprise_cross_validate_def)
qed

text \<open>
  C7, as amended. \<^verbatim>\<open>evaluate_surprise_models\<close> returns in every call: it raises no
  exception. When the ratings table is empty it returns the error object with the text
  \<^verbatim>\<open>No valid ratings data available\<close>. When the table has ratings but fewer than
  five, \<^verbatim>\<open>cross_validate\<close> with \<^verbatim>\<open>cv=5\<close> raises ValueError and the function returns
  the error object of that exception. When the table has five ratings or more and the
  library runs complete, it returns, for KNN and for SVD, the RMSE and the MAE that are
  the rounded means of the scores of \<^verbatim>\<open>cross_validate\<close> called with \<^verbatim>\<open>cv=5\<close>. An
  exception of the body (of reading the file, of building the ratings, of the library)
  is printed and returned as the error object of its text.
\<close>

theorem evaluate_surprise_models_report:
  "(\<exists>r. snd (evaluate_surprise_models literal_eval read_csv load_from_df cross_validate
              rounded_mean) = Inr r)
   \<and> (create_ratings_df literal_eval read_csv = (out, Inr ratings_df) \<and> empty ratings_df \<longrightarrow>
        evaluate_surprise_models literal_eval read_csv load_from_df cross_validate rounded_mean
          = (out, Inr (Error_object ''No valid ratings data available'')))
   \<and> (create_ratings_df literal_eval read_csv = (out, Inr (Frame ratings)) \<and> ratings \<noteq> []
        \<and> length ratings < 5 \<longrightarrow>
        evaluate_surprise_models literal_eval read_csv Inr (surprise_cross_validate run)
            rounded_mean
          = (out @ [Error_in_evaluate (ValueError ''Incorrect value for n_splits'')],
             Inr (Error_object ''Incorrect value for n_splits'')))
   \<and> (create_ratings_df literal_eval read_csv = (out, Inr (Frame ratings))
        \<and> 5 \<le> length ratings
        \<and> run KNNBasic ratings 5 = Inr knn_results
        \<and> run SVD ratings 5 = Inr svd_results
        \<and> test_rmse knn_results \<noteq> [] \<and> test_mae knn_results \<noteq> []
        \<and> test_rmse svd_results \<noteq> [] \<and> test_mae svd_results \<noteq> [] \<longrightarrow>
        evaluate_surprise_models literal_eval read_csv Inr (surprise_cross_validate run)
            rounded_mean
          = (out, Inr (Report
               \<lparr>RMSE = rounded_mean (test_rmse knn_results),
                MAE = rounded_mean (test_mae knn_results)\<rparr>
               \<lparr>RMSE = rounded_mean (test_rmse svd_results),
                MAE = rounded_mean (test_mae svd_results)\<rparr>)))
   \<and> (evaluate_try literal_eval read_csv load_from_df cross_validate rounded_mean
          = (out, Inl e) \<longrightarrow>
        evaluate_surprise_models literal_eval read_csv load_from_df cross_validate rounded_mean
          = (out @ [Error_in_evaluate e], Inr (Error_object (message e))))"
proof (intro conjI impI)
  show "\<exists>r. snd (evaluate_surprise_models literal_eval read_csv load_from_df cross_validate
              rounded_mean) = Inr r"
    by (rule evaluate_surprise_models_returns)
next
  assume "create_ratings_df literal_eval read_csv = (out, Inr ratings_df) \<and> empty ratings_df"
  then show "evaluate_surprise_models literal_eval read_csv load_from_df cross_validate
      rounded_mean = (out, Inr (Error_object ''No valid ratings data available''))"
    by (simp add: evaluate_surprise_models_def evaluate_try_def)
next
  assume "create_ratings_df literal_eval read_csv = (out, Inr (Frame ratings)) \<and> ratings \<noteq> []
        \<and> length ratings < 5"
  then show "evaluate_surprise_models literal_eval read_csv Inr (surprise_cross_validate run)
            rounded_mean
          = (out @ [Error_in_evaluate (ValueError ''Incorrect value for n_splits'')],
             Inr (Error_object ''Incorrect value for n_splits''))"
    by (simp add: evaluate_surprise_models_def evaluate_try_def surprise_cross_validate_def)
next
  assume h: "create_ratings_df literal_eval read_csv = (out, Inr (Frame ratings))
        \<and> 5 \<le> length ratings
        \<and> run KNNBasic ratings 5 = Inr knn_results
        \<and> run SVD ratings 5 = Inr svd_results
        \<and> test_rmse knn_results \<noteq> [] \<and> test_mae knn_results \<noteq> []
        \<and> test_rmse svd_results \<noteq> [] \<and> test_mae svd_results \<noteq> []"
  then have "ratings \<noteq> []"
    by auto
  with h show "evaluate_surprise_models literal_eval read_csv Inr (surprise_cross_validate run)
            rounded_mean
          = (out, Inr (Report
               \<lparr>RMSE = rounded_mean (test_rmse knn_results),
                MAE = rounded_mean (test_mae knn_results)\<rparr>
               \<lparr>RMSE = rounded_mean (test_rmse svd_results),
                MAE = rounded_mean (test_mae svd_results)\<rparr>))"
    by (simp add: evaluate_surprise_models_def evaluate_try_def metrics_of_def mean_rounded_def
          surprise_cross_validate_def)
next
  assume "evaluate_try literal_eval read_csv load_from_df cross_validate rounded_mean
      = (out, Inl e)"
  then show "evaluate_surprise_models literal_eval read_csv load_from_df cross_validate
      rounded_mean = (out @ [Error_in_evaluate e], Inr (Error_object (message e)))"
    by (simp add: evaluate_surprise_models_def)
qed

text \<open>The theorem at the table of four students (seven ratings), at the table of one
  student (two ratings), at the table without rows, and at a file that cannot be
  read.\<close>

theorem evaluate_surprise_models_report_witness:
  "create_ratings_df sample_literal_eval (Inr four_students)
     = ([], Inr (Frame [(''7'', ''a'', 3), (''7'', ''b'', 3),
                        (''8'', ''a'', 2195504818343117 / 1125899906842624),
                        (''8'', ''b'', 2195504818343117 / 1125899906842624),
                        (''8'', ''c'', 2195504818343117 / 1125899906842624),
                        (''9'', ''x'', 11 / 2), (''12'', ''x'', 11 / 2)]))
   \<and> sample_fold_scores KNNBasic
        [(''7'', ''a'', 3), (''7'', ''b'', 3),
         (''8'', ''a'', 2195504818343117 / 1125899906842624),
         (''8'', ''b'', 2195504818343117 / 1125899906842624),
         (''8'', ''c'', 2195504818343117 / 1125899906842624),
         (''9'', ''x'', 11 / 2), (''12'', ''x'', 11 / 2)] 5
     = Inr \<lparr>test_rmse = [1 / 10, 2 / 10, 3 / 10, 4 / 10, 5 / 10],
            test_mae = [2 / 5, 2 / 5, 2 / 5, 2 / 5, 2 / 5]\<rparr>
   \<and> evaluate_surprise_models sample_literal_eval (Inr four_students) Inr
        (surprise_cross_validate sample_fold_scores) sample_mean
     = ([], Inr (Report \<lparr>RMSE = 3 / 10, MAE = 2 / 5\<rparr> \<lparr>RMSE = 3 / 10, MAE = 1 / 5\<rparr>))
   \<and> create_ratings_df sample_literal_eval (Inr one_student)
     = ([], Inr (Frame [(''7'', ''a'', 3), (''7'', ''b'', 3)]))
   \<and> evaluate_surprise_models sample_literal_eval (Inr one_student) Inr
        (surprise_cross_validate sample_fold_scores) sample_mean
     = ([Error_in_evaluate (ValueError ''Incorrect value for n_splits'')],
        Inr (Error_object ''Incorrect value for n_splits''))
   \<and> create_ratings_df sample_literal_eval (Inr []) = ([], Inr (Frame []))
   \<and> empty (Frame ([] :: (string \<times> string \<times> rat) list))
   \<and> evaluate_surprise_models sample_literal_eval (Inr []) Inr
        (surprise_cross_validate sample_fold_scores) sample_mean
     = ([], Inr (Error_object ''No valid ratings data available''))
   \<and> evaluate_try sample_literal_eval (Inl (LibraryError ''No such file'')) Inr
        (surprise_cross_validate sample_fold_scores) sample_mean
     = ([], Inl (LibraryError ''No such file''))
   \<and> evaluate_surprise_models sample_literal_eval (Inl (LibraryError ''No such file'')) Inr
        (surprise_cross_validate sample_fold_scores) sample_mean
     = ([Error_in_evaluate (LibraryError ''No such file'')], Inr (Error_object ''No such file''))"
proof -
  let ?two = "[(''7'', ''a'', 3), (''7'', ''b'', 3)] :: (string \<times> string \<times> rat) list"
  let ?ratings = "[(''7'', ''a'', 3), (''7'', ''b'', 3),
         (''8'', ''a'', 2195504818343117 / 1125899906842624),
         (''8'', ''b'', 2195504818343117 / 1125899906842624),
         (''8'', ''c'', 2195504818343117 / 1125899906842624),
         (''9'', ''x'', 11 / 2), (''12'', ''x'', 11 / 2)] :: (string \<times> string \<times> rat) list"
  let ?knn = "\<lparr>test_rmse = [1 / 10, 2 / 10, 3 / 10, 4 / 10, 5 / 10],
               test_mae = [2 / 5, 2 / 5, 2 / 5, 2 / 5, 2 / 5 :: rat]\<rparr>"
  let ?svd = "\<lparr>test_rmse = [1 / 10, 2 / 10, 3 / 10, 4 / 10, 5 / 10],
               test_mae = [1 / 5, 1 / 5, 1 / 5, 1 / 5, 1 / 5 :: rat]\<rparr>"
  have table: "create_ratings_df sample_literal_eval (Inr four_students)
      = ([], Inr (Frame ?ratings))"
    by code_simp
  have small: "create_ratings_df sample_literal_eval (Inr one_student) = ([], Inr (Frame ?two))"
    by code_simp
  have knn: "sample_fold_scores KNNBasic ?ratings 5 = Inr ?knn"
    by code_simp
  have svd: "sample_fold_scores SVD ?ratings 5 = Inr ?svd"
    by code_simp
  have means: "sample_mean (test_rmse ?knn) = 3 / 10" "sample_mean (test_mae ?knn) = 2 / 5"
      "sample_mean (test_rmse ?svd) = 3 / 10" "sample_mean (test_mae ?svd) = 1 / 5"
    by (simp_all add: sample_mean_def)
  have no_rows: "create_ratings_df sample_literal_eval (Inr []) = ([], Inr (Frame []))"
    by (simp add: create_ratings_df_def)
  have unread: "evaluate_try sample_literal_eval (Inl (LibraryError ''No such file'')) Inr
        (surprise_cross_validate sample_fold_scores) sample_mean
      = ([], Inl (LibraryError ''No such file''))"
    by (simp add: evaluate_try_def create_ratings_df_def)
  have report: "evaluate_surprise_models sample_literal_eval (Inr four_students) Inr
        (surprise_cross_validate sample_fold_scores) sample_mean
     = ([], Inr (Report \<lparr>RMSE = 3 / 10, MAE = 2 / 5\<rparr> \<lparr>RMSE = 3 / 10, MAE = 1 / 5\<rparr>))"
    using table knn svd means
      evaluate_surprise_models_report [where literal_eval = sample_literal_eval
        and read_csv = "Inr four_students" and load_from_df = Inr
        and cross_validate = "surprise_cross_validate sample_fold_scores"
        and run = sample_fold_scores and rounded_mean = sample_mean
        and out = "[]" and ratings = ?ratings and ratings_df = "Frame ?ratings"
        and knn_results = ?knn and svd_results = ?svd
        and e = "LibraryError ''No such file''"]
    by simp
  have refused: "evaluate_surprise_models sample_literal_eval (Inr one_student) Inr
        (surprise_cross_validate sample_fold_scores) sample_mean
     = ([Error_in_evaluate (ValueError ''Incorrect value for n_splits'')],
        Inr (Error_object ''Incorrect value for n_splits''))"
    using small
      evaluate_surprise_models_report [where literal_eval = sample_literal_eval
        and read_csv = "Inr one_student" and load_from_df = Inr
        and cross_validate = "surprise_cross_validate sample_fold_scores"
        and run = sample_fold_scores and rounded_mean = sample_mean
        and out = "[]" and ratings = ?two and ratings_df = "Frame ?two"
        and knn_results = ?knn and svd_results = ?svd
        and e = "LibraryError ''No such file''"]
    by simp
  have empty_table: "evaluate_surprise_models sample_literal_eval (Inr []) Inr
        (surprise_cross_validate sample_fold_scores) sample_mean
     = ([], Inr (Error_object ''No valid ratings data available''))"
    using no_rows
      evaluate_surprise_models_report [where literal_eval = sample_literal_eval
        and read_csv = "Inr []" and load_from_df = Inr
        and cross_validate = "surprise_cross_validate sample_fold_scores"
        and rounded_mean = sample_mean
        and out = "[]" and ratings_df = "Frame []"]
    by simp
  have caught: "evaluate_surprise_models sample_literal_eval (Inl (LibraryError ''No such file''))
        Inr (surprise_cross_validate sample_fold_scores) sample_mean
     = ([Error_in_evaluate (LibraryError ''No such file'')], Inr (Error_object ''No such file''))"
    using unread
      evaluate_surprise_models_report [where literal_eval = sample_literal_eval
        and read_csv = "Inl (LibraryError ''No such file'')" and load_from_df = Inr
        and cross_validate = "surprise_cross_validate sample_fold_scores"
        and rounded_mean = sample_mean
        and out = "[]" and e = "LibraryError ''No such file''"]
    by simp
  show ?thesis
    using table knn report small refused no_rows empty_table unread caught by simp
qed

section \<open>Collaborative-filtering recommendations\<close>

lemma get_knn_recommendations_returns:
  "\<exists>r. snd (get_knn_recommendations literal_eval read_csv fit test load_students user_id top_n)
        = Inr r"
  unfolding get_knn_recommendations_def
  by (cases "knn_try_body literal_eval read_csv fit test load_students user_id top_n")
     (auto split: sum.splits)

lemma get_svd_recommendations_returns:
  "\<exists>r. snd (get_svd_recommendations literal_eval read_csv fit test int_of df user_id top_n)
        = Inr r"
  unfolding get_svd_recommendations_def
  by (cases "svd_try_body literal_eval read_csv fit test int_of df user_id top_n")
     (auto split: sum.splits)

text \<open>\<^verbatim>\<open>get_knn_recommendations\<close> returns the empty list in every call: when the user
  has predictions the sort of their items raises AttributeError, and when the user has
  none there is no skill to look students up for.\<close>

lemma get_knn_recommendations_Nil:
  "snd (get_knn_recommendations literal_eval read_csv fit test load_students user_id top_n)
     = Inr []"
  unfolding get_knn_recommendations_def knn_try_body_def sorted_by_est_of_items_def
  by (auto simp: Let_def slice_to_def sorted_reverse_def split: prod.splits sum.splits if_splits)

text \<open>
  C8. \<^verbatim>\<open>get_knn_recommendations\<close> and \<^verbatim>\<open>get_svd_recommendations\<close> return in every
  call: no exception leaves them. When the training raises, when the prediction run
  raises, and when any other step of the body raises, the exception is printed and the
  result is the empty list.
\<close>

theorem cf_recommendations_catch:
  "(\<exists>r. snd (get_knn_recommendations literal_eval read_csv fit test load_students user_id top_n)
          = Inr r)
   \<and> (\<exists>r. snd (get_svd_recommendations literal_eval read_csv fit test int_of df user_id top_n)
          = Inr r)
   \<and> (train_knn_model literal_eval read_csv fit = (out, Inl e) \<longrightarrow>
        get_knn_recommendations literal_eval read_csv fit test load_students user_id top_n
          = (out @ [KNN_Error e], Inr []))
   \<and> (train_knn_model literal_eval read_csv fit = (out, Inr model) \<and> test model = Inl e \<longrightarrow>
        get_knn_recommendations literal_eval read_csv fit test load_students user_id top_n
          = (out @ [KNN_Error e], Inr []))
   \<and> (train_svd_model literal_eval read_csv fit = (out, Inl e) \<longrightarrow>
        get_svd_recommendations literal_eval read_csv fit test int_of df user_id top_n
          = (out @ [SVD_Error e], Inr []))
   \<and> (train_svd_model literal_eval read_csv fit = (out, Inr model) \<and> test model = Inl e \<longrightarrow>
        get_svd_recommendations literal_eval read_csv fit test int_of df user_id top_n
          = (out @ [SVD_Error e], Inr []))
   \<and> (knn_try_body literal_eval read_csv fit test load_students user_id top_n = (out, Inl e) \<longrightarrow>
        get_knn_recommendations literal_eval read_csv fit test load_students user_id top_n
          = (out @ [KNN_Error e], Inr []))
   \<and> (svd_try_body literal_eval read_csv fit test int_of df user_id top_n = (out, Inl e) \<longrightarrow>
        get_svd_recommendations literal_eval read_csv fit test int_of df user_id top_n
          = (out @ [SVD_Error e], Inr []))"
proof (intro conjI impI)
  show "\<exists>r. snd (get_knn_recommendations literal_eval read_csv fit test load_students user_id
                   top_n) = Inr r"
    by (rule get_knn_recommendations_returns)
  show "\<exists>r. snd (get_svd_recommendations literal_eval read_csv fit test int_of df user_id top_n)
          = Inr r"
    by (rule get_svd_recommendations_returns)
next
  assume "train_knn_model literal_eval read_csv fit = (out, Inl e)"
  then show "get_knn_recommendations literal_eval read_csv fit test load_students user_id top_n
          = (out @ [KNN_Error e], Inr [])"
    by (simp add: get_knn_recommendations_def knn_try_body_def)
next
  assume "train_knn_model literal_eval read_csv fit = (out, Inr model) \<and> test model = Inl e"
  then show "get_knn_recommendations literal_eval read_csv fit test load_students user_id top_n
          = (out @ [KNN_Error e], Inr [])"
    by (simp add: get_knn_recommendations_def knn_try_body_def)
next
  assume "train_svd_model literal_eval read_csv fit = (out, Inl e)"
  then show "get_svd_recommendations literal_eval read_csv fit test int_of df user_id top_n
          = (out @ [SVD_Error e], Inr [])"
    by (simp add: get_svd_recommendations_def svd_try_body_def)
next
  assume "train_svd_model literal_eval read_csv fit = (out, Inr model) \<and> test model = Inl e"
  then show "get_svd_recommendations literal_eval read_csv fit test int_of df user_id top_n
          = (out @ [SVD_Error e], Inr [])"
    by (simp add: get_svd_recommendations_def svd_try_body_def)
next
  assume "knn_try_body literal_eval read_csv fit test load_students user_id top_n = (out, Inl e)"
  then show "get_knn_recommendations literal_eval read_csv fit test load_students user_id top_n
          = (out @ [KNN_Error e], Inr [])"
    by (simp add: get_knn_recommendations_def)
next
  assume "svd_try_body literal_eval read_csv fit test int_of df user_id top_n = (out, Inl e)"
  then show "get_svd_recommendations literal_eval read_csv fit test int_of df user_id top_n
          = (out @ [SVD_Error e], Inr [])"
    by (simp add: get_svd_recommendations_def)
qed

text \<open>The theorem at the table of two students: with a training that fails, with a
  prediction run that fails, and with a prediction for the user, on which the sort of
  \<^verbatim>\<open>get_knn_recommendations\<close> raises AttributeError and \<^verbatim>\<open>int()\<close> of
  \<^verbatim>\<open>get_svd_recommendations\<close> raises ValueError.\<close>

theorem cf_recommendations_catch_witness:
  "train_knn_model sample_literal_eval (Inr two_students) failing_fit
     = ([], Inl (LibraryError ''fit failed''))
   \<and> get_knn_recommendations sample_literal_eval (Inr two_students) failing_fit sample_test
        (Inr []) (SInt 7) 5
     = ([KNN_Error (LibraryError ''fit failed'')], Inr [])
   \<and> train_knn_model sample_literal_eval (Inr two_students) sample_fit
     = ([], Inr [(''7'', ''a'', 3), (''7'', ''b'', 3), (''12'', ''x'', 11 / 2)])
   \<and> failing_test [(''7'', ''a'', 3), (''7'', ''b'', 3), (''12'', ''x'', 11 / 2)] = Inl (LibraryError ''test failed'')
   \<and> get_knn_recommendations sample_literal_eval (Inr two_students) sample_fit failing_test
        (Inr []) (SInt 7) 5
     = ([KNN_Error (LibraryError ''test failed'')], Inr [])
   \<and> knn_try_body sample_literal_eval (Inr two_students) sample_fit sample_test
        (Inr []) (SInt 7) 5
     = ([], Inl (AttributeError ''est''))
   \<and> get_knn_recommendations sample_literal_eval (Inr two_students) sample_fit sample_test
        (Inr []) (SInt 7) 5
     = ([KNN_Error (AttributeError ''est'')], Inr [])
   \<and> train_svd_model sample_literal_eval (Inr two_students) failing_fit
     = ([], Inl (LibraryError ''fit failed''))
   \<and> get_svd_recommendations sample_literal_eval (Inr two_students) failing_fit sample_test
        no_int [] (SInt 7) 5
     = ([SVD_Error (LibraryError ''fit failed'')], Inr [])
   \<and> train_svd_model sample_literal_eval (Inr two_students) sample_fit
     = ([], Inr [(''7'', ''a'', 3), (''7'', ''b'', 3), (''12'', ''x'', 11 / 2)])
   \<and> get_svd_recommendations sample_literal_eval (Inr two_students) sample_fit failing_test
        no_int [] (SInt 7) 5
     = ([SVD_Error (LibraryError ''test failed'')], Inr [])
   \<and> svd_try_body sample_literal_eval (Inr two_students) sample_fit sample_test
        no_int [] (SInt 7) 5
     = ([], Inl (ValueError ''invalid literal for int()''))
   \<and> get_svd_recommendations sample_literal_eval (Inr two_students) sample_fit sample_test
        no_int [] (SInt 7) 5
     = ([SVD_Error (ValueError ''invalid literal for int()'')], Inr [])"
proof -
  let ?model = "[(''7'', ''a'', 3), (''7'', ''b'', 3), (''12'', ''x'', 11 / 2)] :: (string \<times> string \<times> rat) list"
  let ?students = "Inr [] :: error + string student list"
  have knn_fit: "train_knn_model sample_literal_eval (Inr two_students) failing_fit
      = ([], Inl (LibraryError ''fit failed''))"
    by code_simp
  have knn_ok: "train_knn_model sample_literal_eval (Inr two_students) sample_fit
      = ([], Inr ?model)"
    by code_simp
  have svd_fit: "train_svd_model sample_literal_eval (Inr two_students) failing_fit
      = ([], Inl (LibraryError ''fit failed''))"
    by code_simp
  have svd_ok: "train_svd_model sample_literal_eval (Inr two_students) sample_fit
      = ([], Inr ?model)"
    by code_simp
  have no_test: "failing_test ?model = Inl (LibraryError ''test failed'')"
    by (simp add: failing_test_def)
  have knn_body: "knn_try_body sample_literal_eval (Inr two_students) sample_fit sample_test
        ?students (SInt 7) 5 = ([], Inl (AttributeError ''est''))"
    by code_simp
  have svd_body: "svd_try_body sample_literal_eval (Inr two_students) sample_fit sample_test
        no_int [] (SInt 7) 5 = ([], Inl (ValueError ''invalid literal for int()''))"
    by code_simp
  note c = cf_recommendations_catch [where literal_eval = sample_literal_eval
      and read_csv = "Inr two_students" and load_students = ?students and int_of = no_int
      and df = "[]" and user_id = "SInt 7" and top_n = 5 and out = "[]"]
  have k1: "get_knn_recommendations sample_literal_eval (Inr two_students) failing_fit sample_test
        ?students (SInt 7) 5 = ([KNN_Error (LibraryError ''fit failed'')], Inr [])"
    using knn_fit c [where fit = failing_fit and test = sample_test
        and e = "LibraryError ''fit failed''"]
    by simp
  have k2: "get_knn_recommendations sample_literal_eval (Inr two_students) sample_fit failing_test
        ?students (SInt 7) 5 = ([KNN_Error (LibraryError ''test failed'')], Inr [])"
    using knn_ok no_test c [where fit = sample_fit and test = failing_test
        and e = "LibraryError ''test failed''" and model = ?model]
    by simp
  have k3: "get_knn_recommendations sample_literal_eval (Inr two_students) sample_fit sample_test
        ?students (SInt 7) 5 = ([KNN_Error (AttributeError ''est'')], Inr [])"
    using knn_body c [where fit = sample_fit and test = sample_test
        and e = "AttributeError ''est''"]
    by simp
  have s1: "get_svd_recommendations sample_literal_eval (Inr two_students) failing_fit sample_test
        no_int [] (SInt 7) 5 = ([SVD_Error (LibraryError ''fit failed'')], Inr [])"
    using svd_fit c [where fit = failing_fit and test = sample_test
        and e = "LibraryError ''fit failed''"]
    by simp
  have s2: "get_svd_recommendations sample_literal_eval (Inr two_students) sample_fit failing_test
        no_int [] (SInt 7) 5 = ([SVD_Error (LibraryError ''test failed'')], Inr [])"
    using svd_ok no_test c [where fit = sample_fit and test = failing_test
        and e = "LibraryError ''test failed''" and model = ?model]
    by simp
  have s3: "get_svd_recommendations sample_literal_eval (Inr two_students) sample_fit sample_test
        no_int [] (SInt 7) 5 = ([SVD_Error (ValueError ''invalid literal for int()'')], Inr [])"
    using svd_body c [where fit = sample_fit and test = sample_test
        and e = "ValueError ''invalid literal for int()''"]
    by simp
  show ?thesis
    using knn_fit knn_ok svd_fit svd_ok no_test knn_body svd_body k1 k2 k3 s1 s2 s3 by simp
qed

end
